theory Spec2Isabelle
  imports Main "HOL-Library.List_Lexorder"
begin

section \<open>Exceptions\<close>

text \<open>
  Every \<^verbatim>\<open>raise\<close>, failed \<^verbatim>\<open>assert\<close> and failing library call of the Python
  source is a value \<open>Inl e\<close> of the result type \<open>error + 'a\<close>; a normal return is \<open>Inr\<close>.
\<close>

datatype error =
    AttributeError | AssertionError | IndexError | TypeError | ValueError | OverflowError
  | NotImplementedError

text \<open>Sequencing of calls that may raise: the first exception ends the computation.\<close>

definition on_success :: "error + 'a \<Rightarrow> ('a \<Rightarrow> error + 'b) \<Rightarrow> error + 'b" where
  "on_success r f = (case r of Inl e \<Rightarrow> Inl e | Inr x \<Rightarrow> f x)"

fun collect :: "(error + 'a) list \<Rightarrow> error + 'a list" where
  "collect [] = Inr []"
| "collect (r # rs) =
     on_success r (\<lambda>x. on_success (collect rs) (\<lambda>xs. Inr (x # xs)))"

section \<open>numpy and standard-library operations used by the source\<close>

text \<open>
  A \<^verbatim>\<open>Sector\<close> (1D integer array) is the list of its entries; a \<^verbatim>\<open>SectorArray\<close> (2D
  array with axes \<^verbatim>\<open>[s, q]\<close>) is the list of its rows. The arrays of spaces.py are made
  with \<^verbatim>\<open>dtype=int\<close>, which is \<^verbatim>\<open>int64\<close>: an entry is an integer \<open>x\<close> with \<open>int64 x\<close>,
  and numpy computes sums, differences, negations and products of entries modulo
  \<open>2\<^sup>6\<^sup>4\<close>, without an exception (\<open>wrap64\<close>). The lists of the model carry \<open>int\<close>; every
  arithmetic operation on entries is written with \<open>wrap64\<close>.
\<close>

type_synonym Sector = "int list"
type_synonym SectorArray = "int list list"

definition int64 :: "int \<Rightarrow> bool" where
  "int64 x = (- (2 ^ 63) \<le> x \<and> x < 2 ^ 63)"

definition wrap64 :: "int \<Rightarrow> int" where
  "wrap64 x = (x + 2 ^ 63) mod 2 ^ 64 - 2 ^ 63"

text \<open>
  An array-like argument that becomes a two-dimensional array: the number of its columns
  and the list of its rows, holding Python integers. The number of columns is part of
  the shape also when there are no rows (\<^verbatim>\<open>np.zeros((0, 1), int)\<close> is \<open>NDArray 1 []\<close>);
  \<open>NDArray 0 []\<close> also stands for the empty list \<^verbatim>\<open>[]\<close>, of which \<^verbatim>\<open>np.asarray\<close>
  makes an array of shape \<^verbatim>\<open>(0,)\<close>: like an array of shape \<^verbatim>\<open>(n, 0)\<close>, its transpose
  has no rows.
\<close>

datatype ndarray = NDArray (num_columns: nat) (row_list: "int list list")

text \<open>\<^verbatim>\<open>np.asarray(x, dtype=int)\<close>: rows of different lengths raise ValueError, a Python
  integer outside \<^verbatim>\<open>int64\<close> raises OverflowError.\<close>

fun asarray_2d :: "ndarray \<Rightarrow> error + SectorArray" where
  "asarray_2d (NDArray k rows) =
     (if \<not> list_all (\<lambda>r. length r = k) rows then Inl ValueError
      else if \<not> list_all (list_all int64) rows then Inl OverflowError
      else Inr rows)"

definition asarray_1d :: "int list \<Rightarrow> error + int list" where
  "asarray_1d xs = (if list_all int64 xs then Inr xs else Inl OverflowError)"

text \<open>An elementwise binary operation of numpy on two one-dimensional arrays: arrays of
  equal length are combined entry by entry, an array with one entry is broadcast, and
  other shapes raise ValueError.\<close>

definition np_binop :: "(int \<Rightarrow> int \<Rightarrow> int) \<Rightarrow> int list \<Rightarrow> int list \<Rightarrow> error + int list" where
  "np_binop f a b =
     (if length a = length b then Inr (map2 f a b)
      else if length a = 1 then Inr (map (f (hd a)) b)
      else if length b = 1 then Inr (map (\<lambda>x. f x (hd b)) a)
      else Inl ValueError)"

text \<open>\<^verbatim>\<open>xs[idx]\<close> with an integer index array: out-of-range entries raise IndexError.\<close>

definition take_rows :: "'a list \<Rightarrow> nat list \<Rightarrow> error + 'a list" where
  "take_rows xs idx =
     (if list_all (\<lambda>i. i < length xs) idx then Inr (map (\<lambda>i. xs ! i) idx) else Inl IndexError)"

text \<open>\<^verbatim>\<open>xs[i]\<close> with one Python integer: negative indices count from the end.\<close>

definition getitem :: "'a list \<Rightarrow> int \<Rightarrow> error + 'a" where
  "getitem xs i =
     (if 0 \<le> i \<and> i < int (length xs) then Inr (xs ! nat i)
      else if i < 0 \<and> - int (length xs) \<le> i then Inr (xs ! nat (int (length xs) + i))
      else Inl IndexError)"

text \<open>\<^verbatim>\<open>a[lo:hi]\<close> for \<open>0 \<le> lo\<close>, \<open>0 \<le> hi\<close>: slicing clamps to the array.\<close>

definition slice :: "'a list \<Rightarrow> nat \<Rightarrow> nat \<Rightarrow> 'a list" where
  "slice a lo hi = take (hi - lo) (drop lo a)"

text \<open>\<^verbatim>\<open>np.cumsum\<close> of a list of Python integers that count charges
  (\<^verbatim>\<open>ProductSymmetry.__init__\<close>): the sums are at most the number of factors.\<close>

fun cumsum_from :: "int \<Rightarrow> int list \<Rightarrow> int list" where
  "cumsum_from acc [] = []"
| "cumsum_from acc (x # xs) = (acc + x) # cumsum_from (acc + x) xs"

definition cumsum :: "int list \<Rightarrow> int list" where
  "cumsum xs = cumsum_from 0 xs"

text \<open>\<^verbatim>\<open>np.cumsum\<close> of an \<^verbatim>\<open>int64\<close> array: the running sum wraps.\<close>

fun cumsum64_from :: "int \<Rightarrow> int list \<Rightarrow> int list" where
  "cumsum64_from acc [] = []"
| "cumsum64_from acc (x # xs) = wrap64 (acc + x) # cumsum64_from (wrap64 (acc + x)) xs"

definition cumsum64 :: "int list \<Rightarrow> int list" where
  "cumsum64 xs = cumsum64_from 0 xs"

text \<open>
  \<^verbatim>\<open>np.arange(start, stop, step)\<close> for \<^verbatim>\<open>int64\<close> values \<open>start\<close>, \<open>stop\<close> and a positive
  Python integer \<open>step\<close>. numpy takes the difference \<open>stop - start\<close> in \<^verbatim>\<open>int64\<close>, so it
  wraps, and makes an array of \<open>\<lceil>difference / step\<rceil>\<close> entries (none if that is not
  positive) \<open>start + k * step\<close>, again in \<^verbatim>\<open>int64\<close>. An array of \<open>2\<^sup>6\<^sup>0\<close> or more entries
  of eight bytes is refused with ValueError. numpy divides in double precision, which
  is exact for a difference below \<open>2\<^sup>5\<^sup>3\<close>; exhaustion of memory is not modelled.
\<close>

definition arange :: "int \<Rightarrow> int \<Rightarrow> int \<Rightarrow> error + int list" where
  "arange start stop step =
     (let n = nat ((wrap64 (stop - start) + step - 1) div step) in
      if 2 ^ 60 \<le> n then Inl ValueError
      else Inr (map (\<lambda>k. wrap64 (start + int k * step)) [0 ..< n]))"

text \<open>The conversion of an array to one number, as \<^verbatim>\<open>np.arange\<close> does with its
  arguments: an array with one entry converts, an empty one raises TypeError, one with
  more entries ValueError.\<close>

fun item :: "int list \<Rightarrow> error + int" where
  "item [] = Inl TypeError"
| "item [x] = Inr x"
| "item (x # y # zs) = Inl ValueError"

text \<open>\<^verbatim>\<open>x % n\<close> for an \<^verbatim>\<open>int64\<close> entry \<open>x\<close> and a Python integer \<open>n\<close> that is itself an
  \<^verbatim>\<open>int64\<close> value: floored like Python's, and 0 (with a warning, no exception) for
  \<open>n = 0\<close>.\<close>

definition np_mod :: "int \<Rightarrow> int \<Rightarrow> int" where
  "np_mod x n = (if n = 0 then 0 else x mod n)"

text \<open>
  \<^verbatim>\<open>np.lexsort(sectors.T)\<close>: the keys are the columns of \<open>sectors\<close>, and the
  \<^emph>\<open>last\<close> key is the primary one. The rows are therefore ordered by comparing their
  entries from the last column to the first, that is, by the lexicographic order of the
  reversed rows; the sort is stable (\<open>colex_argsort\<close>). An array without columns has no
  keys, for which \<^verbatim>\<open>np.lexsort\<close> raises TypeError.
\<close>

definition colex_argsort :: "SectorArray \<Rightarrow> nat list" where
  "colex_argsort rows = sort_key (\<lambda>i. rev (rows ! i)) [0 ..< length rows]"

definition lexsort_T :: "nat \<Rightarrow> SectorArray \<Rightarrow> error + nat list" where
  "lexsort_T k rows = (if k = 0 then Inl TypeError else Inr (colex_argsort rows))"

text \<open>\<^verbatim>\<open>inverse_permutation\<close>, as defined in \<^verbatim>\<open>tenpy/linalg/misc.py\<close> (spaces.py
  imports the function of this name from \<^verbatim>\<open>tenpy/tools/misc.py\<close>, of which that file
  holds the copy):
  \<^verbatim>\<open>inv = np.empty_like(permutation); inv[permutation] = np.arange(len(inv))\<close>.
  The buffer of \<^verbatim>\<open>np.empty_like\<close> is uninitialised; it is taken as 0 here, and every
  entry is overwritten when the argument is a permutation.\<close>

fun inverse_fill :: "nat list \<Rightarrow> nat \<Rightarrow> nat list \<Rightarrow> nat list" where
  "inverse_fill [] i buf = buf"
| "inverse_fill (p # ps) i buf = inverse_fill ps (Suc i) (buf[p := i])"

definition inverse_permutation :: "nat list \<Rightarrow> error + nat list" where
  "inverse_permutation permutation =
     (if list_all (\<lambda>p. p < length permutation) permutation
      then Inr (inverse_fill permutation 0 (replicate (length permutation) 0))
      else Inl IndexError)"

text \<open>\<^verbatim>\<open>bisect.bisect(a, x)\<close> (bisect_right): the binary search of the standard library.\<close>

function bisect_loop :: "int list \<Rightarrow> int \<Rightarrow> nat \<Rightarrow> nat \<Rightarrow> nat" where
  "bisect_loop a x lo hi =
     (if lo < hi
      then (if x < a ! ((lo + hi) div 2)
            then bisect_loop a x lo ((lo + hi) div 2)
            else bisect_loop a x ((lo + hi) div 2 + 1) hi)
      else lo)"
  by pat_completeness auto
termination
  by (relation "measure (\<lambda>(a, x, lo, hi). hi - lo)") auto

definition bisect :: "int list \<Rightarrow> int \<Rightarrow> nat" where
  "bisect a x = bisect_loop a x 0 (length a)"

text \<open>A Python \<^verbatim>\<open>dict\<close> keeps insertion order: assigning to an existing key keeps its
  position, a new key goes to the end.\<close>

fun dict_set :: "('k \<times> 'v) list \<Rightarrow> 'k \<Rightarrow> 'v \<Rightarrow> ('k \<times> 'v) list" where
  "dict_set [] k v = [(k, v)]"
| "dict_set ((k', v') # d) k v = (if k' = k then (k, v) # d else (k', v') # dict_set d k v)"

fun dict_get :: "('k \<times> 'v) list \<Rightarrow> 'k \<Rightarrow> 'v \<Rightarrow> 'v" where
  "dict_get [] k dflt = dflt"
| "dict_get ((k', v') # d) k dflt = (if k' = k then v' else dict_get d k dflt)"

section \<open>groups.py: the symmetries\<close>

datatype FusionStyle = single | multiple_unique | general

fun FusionStyle_value :: "FusionStyle \<Rightarrow> int" where
  "FusionStyle_value single = 0"
| "FusionStyle_value multiple_unique = 10"
| "FusionStyle_value general = 20"

datatype BraidingStyle = bosonic | fermionic | anyonic | no_braiding

fun BraidingStyle_value :: "BraidingStyle \<Rightarrow> int" where
  "BraidingStyle_value bosonic = 0"
| "BraidingStyle_value fermionic = 10"
| "BraidingStyle_value anyonic = 20"
| "BraidingStyle_value no_braiding = 30"

text \<open>
  The concrete classes. \<^verbatim>\<open>ProductSymmetry.__init__\<close> asserts that no factor is itself a
  \<^verbatim>\<open>ProductSymmetry\<close>, so the factors are taken from the type of the other classes. The
  \<open>string option\<close> is \<^verbatim>\<open>descriptive_name\<close>, the \<open>int\<close> of \<^verbatim>\<open>ZNSymmetry\<close> is \<^verbatim>\<open>N\<close>, a
  Python integer that the constructor takes unchecked.
\<close>

datatype factor =
    NoSymmetry
  | U1Symmetry "string option"
  | ZNSymmetry int "string option"
  | SU2Symmetry "string option"
  | FermionParity

datatype symmetry = Sym factor | ProductSymmetry "factor list"

subsection \<open>Classes, attribute lookup and instance checks\<close>

datatype cls =
    Symmetry_cls | ProductSymmetry_cls | Group_cls | AbelianGroup_cls | NoSymmetry_cls
  | U1Symmetry_cls | ZNSymmetry_cls | SU2Symmetry_cls | FermionParity_cls

text \<open>The method resolution order of each class, within groups.py (\<^verbatim>\<open>ABC\<close> and
  \<^verbatim>\<open>object\<close> follow in every case, see \<open>builtin_names\<close>).\<close>

fun mro :: "cls \<Rightarrow> cls list" where
  "mro Symmetry_cls = [Symmetry_cls]"
| "mro ProductSymmetry_cls = [ProductSymmetry_cls, Symmetry_cls]"
| "mro Group_cls = [Group_cls, Symmetry_cls]"
| "mro AbelianGroup_cls = [AbelianGroup_cls, Group_cls, Symmetry_cls]"
| "mro NoSymmetry_cls = [NoSymmetry_cls, AbelianGroup_cls, Group_cls, Symmetry_cls]"
| "mro U1Symmetry_cls = [U1Symmetry_cls, AbelianGroup_cls, Group_cls, Symmetry_cls]"
| "mro ZNSymmetry_cls = [ZNSymmetry_cls, AbelianGroup_cls, Group_cls, Symmetry_cls]"
| "mro SU2Symmetry_cls = [SU2Symmetry_cls, Group_cls, Symmetry_cls]"
| "mro FermionParity_cls = [FermionParity_cls, Symmetry_cls]"

text \<open>The names bound in the body of each class of groups.py.\<close>

fun class_dict :: "cls \<Rightarrow> string list" where
  "class_dict Symmetry_cls =
     [''__init__'', ''is_valid_sector'', ''fusion_outcomes'', ''fusion_outcomes_broadcast'',
      ''sector_dim'', ''sector_str'', ''__repr__'', ''__str__'', ''__mul__'', ''__eq__'',
      ''is_same_symmetry'', ''dual_sector'', ''dual_sectors'', ''n_symbol'', ''all_sectors'']"
| "class_dict ProductSymmetry_cls =
     [''__init__'', ''is_valid_sector'', ''fusion_outcomes'', ''fusion_outcomes_broadcast'',
      ''sector_dim'', ''sector_str'', ''__repr__'', ''__str__'', ''__eq__'',
      ''is_same_symmetry'', ''dual_sector'', ''dual_sectors'', ''n_symbol'', ''all_sectors'']"
| "class_dict Group_cls = [''__init__'']"
| "class_dict AbelianGroup_cls = [''__init__'', ''sector_dim'', ''n_symbol'']"
| "class_dict NoSymmetry_cls =
     [''__init__'', ''is_valid_sector'', ''fusion_outcomes'', ''fusion_outcomes_broadcast'',
      ''dual_sector'', ''dual_sectors'', ''sector_str'', ''__repr__'', ''is_same_symmetry'',
      ''all_sectors'']"
| "class_dict U1Symmetry_cls =
     [''__init__'', ''is_valid_sector'', ''fusion_outcomes'', ''fusion_outcomes_broadcast'',
      ''dual_sector'', ''dual_sectors'', ''__repr__'', ''is_same_symmetry'']"
| "class_dict ZNSymmetry_cls =
     [''__init__'', ''__repr__'', ''is_same_symmetry'', ''is_valid_sector'',
      ''fusion_outcomes'', ''fusion_outcomes_broadcast'', ''dual_sector'', ''dual_sectors'',
      ''all_sectors'']"
| "class_dict SU2Symmetry_cls =
     [''__init__'', ''is_valid_sector'', ''fusion_outcomes'', ''sector_dim'', ''sector_str'',
      ''__repr__'', ''is_same_symmetry'', ''dual_sector'', ''dual_sectors'', ''n_symbol'']"
| "class_dict FermionParity_cls =
     [''__init__'', ''is_valid_sector'', ''fusion_outcomes'', ''fusion_outcomes_broadcast'',
      ''sector_dim'', ''sector_str'', ''__repr__'', ''is_same_symmetry'', ''dual_sector'',
      ''dual_sectors'', ''n_symbol'', ''all_sectors'']"

text \<open>The names every instance inherits from \<^verbatim>\<open>ABC\<close> and \<^verbatim>\<open>object\<close>, or gets from
  the class statement itself. No class defines \<^verbatim>\<open>__getattr__\<close>.\<close>

definition builtin_names :: "string list" where
  "builtin_names =
     [''__class__'', ''__delattr__'', ''__dict__'', ''__dir__'', ''__doc__'', ''__eq__'',
      ''__format__'', ''__ge__'', ''__getattribute__'', ''__getstate__'', ''__gt__'',
      ''__hash__'', ''__init__'', ''__init_subclass__'', ''__le__'', ''__lt__'',
      ''__module__'', ''__ne__'', ''__new__'', ''__reduce__'', ''__reduce_ex__'',
      ''__repr__'', ''__setattr__'', ''__sizeof__'', ''__slots__'', ''__str__'',
      ''__subclasshook__'', ''__weakref__'', ''__abstractmethods__'', ''_abc_impl'']"

fun factor_class :: "factor \<Rightarrow> cls" where
  "factor_class NoSymmetry = NoSymmetry_cls"
| "factor_class (U1Symmetry name) = U1Symmetry_cls"
| "factor_class (ZNSymmetry N name) = ZNSymmetry_cls"
| "factor_class (SU2Symmetry name) = SU2Symmetry_cls"
| "factor_class FermionParity = FermionParity_cls"

fun class_of :: "symmetry \<Rightarrow> cls" where
  "class_of (Sym f) = factor_class f"
| "class_of (ProductSymmetry fs) = ProductSymmetry_cls"

text \<open>The attributes the constructors set on the instance: \<^verbatim>\<open>Symmetry.__init__\<close> for
  all, \<^verbatim>\<open>factors\<close> and \<^verbatim>\<open>sector_slices\<close> in \<^verbatim>\<open>ProductSymmetry.__init__\<close>, \<^verbatim>\<open>N\<close>
  in \<^verbatim>\<open>ZNSymmetry.__init__\<close>.\<close>

fun instance_dict :: "symmetry \<Rightarrow> string list" where
  "instance_dict (ProductSymmetry fs) =
     [''factors'', ''sector_slices'', ''fusion_style'', ''braiding_style'', ''trivial_sector'',
      ''group_name'', ''num_sectors'', ''descriptive_name'', ''sector_ind_len'', ''is_abelian'']"
| "instance_dict (Sym (ZNSymmetry N name)) =
     [''N'', ''fusion_style'', ''braiding_style'', ''trivial_sector'',
      ''group_name'', ''num_sectors'', ''descriptive_name'', ''sector_ind_len'', ''is_abelian'']"
| "instance_dict (Sym f) =
     [''fusion_style'', ''braiding_style'', ''trivial_sector'',
      ''group_name'', ''num_sectors'', ''descriptive_name'', ''sector_ind_len'', ''is_abelian'']"

text \<open>Attribute lookup \<^verbatim>\<open>symmetry.name\<close>: the instance, then the classes of the method
  resolution order; a name found nowhere raises AttributeError.\<close>

definition hasattr :: "symmetry \<Rightarrow> string \<Rightarrow> bool" where
  "hasattr symm name =
     (name \<in> set (instance_dict symm)
      \<or> name \<in> set (concat (map class_dict (mro (class_of symm))))
      \<or> name \<in> set builtin_names)"

definition getattr :: "symmetry \<Rightarrow> string \<Rightarrow> error + unit" where
  "getattr symm name = (if hasattr symm name then Inr () else Inl AttributeError)"

text \<open>\<^verbatim>\<open>type.__instancecheck__(cls, instance)\<close>: the nominal check.\<close>

definition type_instancecheck :: "cls \<Rightarrow> cls \<Rightarrow> bool" where
  "type_instancecheck c instance_class = (c \<in> set (mro instance_class))"

text \<open>\<^verbatim>\<open>_ABCFactorSymmetryMeta.__instancecheck__\<close>, the metaclass of \<^verbatim>\<open>Group\<close>,
  \<^verbatim>\<open>AbelianGroup\<close> and their subclasses.\<close>

fun instancecheck :: "cls \<Rightarrow> symmetry \<Rightarrow> bool" where
  "instancecheck c (ProductSymmetry fs) =
     (if c = Group_cls \<or> c = AbelianGroup_cls
      then list_all (\<lambda>f. type_instancecheck c (factor_class f)) fs
      else type_instancecheck c ProductSymmetry_cls)"
| "instancecheck c (Sym f) = type_instancecheck c (factor_class f)"

text \<open>\<^verbatim>\<open>isinstance(instance, cls)\<close>: classes below \<^verbatim>\<open>Group\<close> have the metaclass above;
  \<^verbatim>\<open>Symmetry\<close>, \<^verbatim>\<open>ProductSymmetry\<close> and \<^verbatim>\<open>FermionParity\<close> have \<^verbatim>\<open>ABCMeta\<close>, which
  (no class being registered) is the nominal check.\<close>

definition isinstance :: "symmetry \<Rightarrow> cls \<Rightarrow> bool" where
  "isinstance instance c =
     (if c \<in> set [Symmetry_cls, ProductSymmetry_cls, FermionParity_cls]
      then type_instancecheck c (class_of instance)
      else instancecheck c instance)"

subsection \<open>The methods of the symmetry classes\<close>

text \<open>\<^verbatim>\<open>trivial_sector\<close> and \<^verbatim>\<open>sector_ind_len = len(trivial_sector)\<close>.\<close>

fun factor_trivial_sector :: "factor \<Rightarrow> Sector" where
  "factor_trivial_sector f = [0]"

fun trivial_sector :: "symmetry \<Rightarrow> Sector" where
  "trivial_sector (Sym f) = factor_trivial_sector f"
| "trivial_sector (ProductSymmetry fs) = concat (map factor_trivial_sector fs)"

definition factor_sector_ind_len :: "factor \<Rightarrow> nat" where
  "factor_sector_ind_len f = length (factor_trivial_sector f)"

definition sector_ind_len :: "symmetry \<Rightarrow> nat" where
  "sector_ind_len symm = length (trivial_sector symm)"

text \<open>\<^verbatim>\<open>fusion_style\<close>: \<^verbatim>\<open>single\<close> for the abelian groups and the fermion parity,
  \<^verbatim>\<open>multiple_unique\<close> for SU(2), and for a product the first factor style of maximal
  value (\<^verbatim>\<open>max(..., key=lambda style: style.value)\<close>, which raises ValueError without
  factors).\<close>

fun factor_fusion_style :: "factor \<Rightarrow> FusionStyle" where
  "factor_fusion_style (SU2Symmetry name) = multiple_unique"
| "factor_fusion_style f = single"

fun max_style :: "FusionStyle \<Rightarrow> FusionStyle list \<Rightarrow> FusionStyle" where
  "max_style m [] = m"
| "max_style m (s # ss) =
     max_style (if FusionStyle_value m < FusionStyle_value s then s else m) ss"

fun fusion_style :: "symmetry \<Rightarrow> error + FusionStyle" where
  "fusion_style (Sym f) = Inr (factor_fusion_style f)"
| "fusion_style (ProductSymmetry []) = Inl ValueError"
| "fusion_style (ProductSymmetry (f # fs)) =
     Inr (max_style (factor_fusion_style f) (map factor_fusion_style fs))"

text \<open>\<^verbatim>\<open>sector_slices = np.cumsum([0] + [f.sector_ind_len for f in factors])\<close>, and the
  part \<^verbatim>\<open>a[sector_slices[i]:sector_slices[i + 1]]\<close> of a sector for each factor.\<close>

definition sector_slices :: "factor list \<Rightarrow> nat list" where
  "sector_slices fs = map nat (cumsum (0 # map (\<lambda>f. int (factor_sector_ind_len f)) fs))"

definition factor_parts :: "factor list \<Rightarrow> Sector \<Rightarrow> Sector list" where
  "factor_parts fs a =
     map (\<lambda>i. slice a (sector_slices fs ! i) (sector_slices fs ! (i + 1))) [0 ..< length fs]"

text \<open>\<^verbatim>\<open>sectors[:, sector_slices[i]:sector_slices[i + 1]]\<close> for each factor.\<close>

definition factor_columns :: "factor list \<Rightarrow> SectorArray \<Rightarrow> SectorArray list" where
  "factor_columns fs sectors =
     map (\<lambda>i. map (\<lambda>a. slice a (sector_slices fs ! i) (sector_slices fs ! (i + 1))) sectors)
       [0 ..< length fs]"

text \<open>\<^verbatim>\<open>np.concatenate(components, axis=-1)\<close> of 2D arrays with \<open>n\<close> rows each.\<close>

definition concatenate_last :: "nat \<Rightarrow> SectorArray list \<Rightarrow> SectorArray" where
  "concatenate_last n components =
     map (\<lambda>r. concat (map (\<lambda>c. c ! r) components)) [0 ..< n]"

text \<open>\<^verbatim>\<open>is_valid_sector\<close>.\<close>

fun factor_is_valid_sector :: "factor \<Rightarrow> Sector \<Rightarrow> bool" where
  "factor_is_valid_sector NoSymmetry a = (length a = 1 \<and> a ! 0 = 0)"
| "factor_is_valid_sector (U1Symmetry name) a = (length a = 1)"
| "factor_is_valid_sector (ZNSymmetry N name) a = (length a = 1 \<and> 0 \<le> a ! 0 \<and> a ! 0 < N)"
| "factor_is_valid_sector (SU2Symmetry name) a = (length a = 1 \<and> a ! 0 \<ge> 0)"
| "factor_is_valid_sector FermionParity a = (length a = 1 \<and> a ! 0 \<in> set [0, 1])"

fun is_valid_sector :: "symmetry \<Rightarrow> Sector \<Rightarrow> bool" where
  "is_valid_sector (Sym f) a = factor_is_valid_sector f a"
| "is_valid_sector (ProductSymmetry fs) a =
     (length a = sector_ind_len (ProductSymmetry fs)
      \<and> list_all (\<lambda>(f, a_i). factor_is_valid_sector f a_i) (zip fs (factor_parts fs a)))"

text \<open>\<^verbatim>\<open>fusion_outcomes\<close>. The abelian classes and the fermion parity go through
  \<^verbatim>\<open>fusion_outcomes_broadcast(a[np.newaxis, :], b[np.newaxis, :])\<close>, an elementwise
  operation with one row as result; SU(2) is
  \<^verbatim>\<open>np.arange(np.abs(a - b), a + b + 2, 2)[:, np.newaxis]\<close>, where the two array
  arguments are computed first and then converted to numbers by \<^verbatim>\<open>np.arange\<close>.\<close>

fun factor_fusion_outcomes :: "factor \<Rightarrow> Sector \<Rightarrow> Sector \<Rightarrow> error + SectorArray" where
  "factor_fusion_outcomes NoSymmetry a b = Inr [a]"
| "factor_fusion_outcomes (U1Symmetry name) a b =
     on_success (np_binop (\<lambda>x y. wrap64 (x + y)) a b) (\<lambda>c. Inr [c])"
| "factor_fusion_outcomes (ZNSymmetry N name) a b =
     on_success (np_binop (\<lambda>x y. wrap64 (x + y)) a b) (\<lambda>c. Inr [map (\<lambda>x. np_mod x N) c])"
| "factor_fusion_outcomes (SU2Symmetry name) a b =
     on_success (np_binop (\<lambda>x y. wrap64 (x - y)) a b) (\<lambda>difference.
     on_success (np_binop (\<lambda>x y. wrap64 (x + y)) a b) (\<lambda>total.
     on_success (item (map (\<lambda>x. wrap64 \<bar>x\<bar>) difference)) (\<lambda>start.
     on_success (item (map (\<lambda>x. wrap64 (x + 2)) total)) (\<lambda>stop.
     on_success (arange start stop 2) (\<lambda>cs. Inr (map (\<lambda>c. [c]) cs))))))"
| "factor_fusion_outcomes FermionParity a b =
     on_success (np_binop (\<lambda>x y. wrap64 (x + y)) a b) (\<lambda>c. Inr [map (\<lambda>x. np_mod x 2) c])"

text \<open>The loop \<^verbatim>\<open>for i, f_i in enumerate(self.factors)\<close> of
  \<^verbatim>\<open>ProductSymmetry.fusion_outcomes\<close>, collecting \<^verbatim>\<open>all_outcomes\<close>.\<close>

fun all_outcomes :: "(factor \<times> Sector \<times> Sector) list \<Rightarrow> error + SectorArray list" where
  "all_outcomes [] = Inr []"
| "all_outcomes ((f_i, a_i, b_i) # rest) =
     (case factor_fusion_outcomes f_i a_i b_i of
        Inl e \<Rightarrow> Inl e
      | Inr c_i \<Rightarrow> (case all_outcomes rest of Inl e \<Rightarrow> Inl e | Inr cs \<Rightarrow> Inr (c_i # cs)))"

text \<open>For a product, \<^verbatim>\<open>result[n1, ..., nk, :]\<close> is the concatenation of
  \<^verbatim>\<open>c_1[n1, :], ..., c_k[nk, :]\<close>, reshaped to two dimensions in C order (the index of
  the first factor varies slowest). The result array is allocated with
  \<^verbatim>\<open>np.find_common_type\<close>, a function of numpy before version 2.\<close>

fun fusion_outcomes :: "symmetry \<Rightarrow> Sector \<Rightarrow> Sector \<Rightarrow> error + SectorArray" where
  "fusion_outcomes (Sym f) a b = factor_fusion_outcomes f a b"
| "fusion_outcomes (ProductSymmetry fs) a b =
     (case all_outcomes (zip fs (zip (factor_parts fs a) (factor_parts fs b))) of
        Inl e \<Rightarrow> Inl e
      | Inr cs \<Rightarrow> Inr (map concat (product_lists cs)))"

text \<open>\<^verbatim>\<open>sector_dim\<close>: 1 in \<^verbatim>\<open>AbelianGroup\<close> and \<^verbatim>\<open>FermionParity\<close>, \<^verbatim>\<open>a[0] + 1\<close> for
  SU(2); for a product 1 if the fusion style is \<^verbatim>\<open>single\<close>, else the product
  (\<^verbatim>\<open>np.prod\<close>) over the factors.\<close>

fun factor_sector_dim :: "factor \<Rightarrow> Sector \<Rightarrow> error + int" where
  "factor_sector_dim (SU2Symmetry name) a =
     (case getitem a 0 of Inl e \<Rightarrow> Inl e | Inr jj \<Rightarrow> Inr (wrap64 (jj + 1)))"
| "factor_sector_dim f a = Inr 1"

fun prod_results :: "(error + int) list \<Rightarrow> error + int" where
  "prod_results [] = Inr 1"
| "prod_results (r # rs) =
     (case r of
        Inl e \<Rightarrow> Inl e
      | Inr x \<Rightarrow> (case prod_results rs of Inl e \<Rightarrow> Inl e | Inr y \<Rightarrow> Inr (wrap64 (x * y))))"

fun sector_dim :: "symmetry \<Rightarrow> Sector \<Rightarrow> error + int" where
  "sector_dim (Sym f) a = factor_sector_dim f a"
| "sector_dim (ProductSymmetry fs) a =
     (case fusion_style (ProductSymmetry fs) of
        Inl e \<Rightarrow> Inl e
      | Inr style \<Rightarrow>
          if style = single then Inr 1
          else prod_results (map (\<lambda>(f, a_i). factor_sector_dim f a_i) (zip fs (factor_parts fs a))))"


fun factor_dual_sectors :: "factor \<Rightarrow> SectorArray \<Rightarrow> SectorArray" where
  "factor_dual_sectors (U1Symmetry name) sectors = map (map (\<lambda>x. wrap64 (- x))) sectors"
| "factor_dual_sectors (ZNSymmetry N name) sectors =
     map (map (\<lambda>x. np_mod (wrap64 (- x)) N)) sectors"
| "factor_dual_sectors f sectors = sectors"


fun dual_sectors :: "symmetry \<Rightarrow> SectorArray \<Rightarrow> SectorArray" where
  "dual_sectors (Sym f) sectors = factor_dual_sectors f sectors"
| "dual_sectors (ProductSymmetry fs) sectors =
     concatenate_last (length sectors)
       (map (\<lambda>(f, sectors_i). factor_dual_sectors f sectors_i) (zip fs (factor_columns fs sectors)))"

text \<open>\<^verbatim>\<open>n_symbol\<close>: 1 in \<^verbatim>\<open>AbelianGroup\<close> and \<^verbatim>\<open>FermionParity\<close>, not implemented for
  SU(2); for a product 1 unless the fusion style is \<^verbatim>\<open>general\<close>.\<close>

fun factor_n_symbol :: "factor \<Rightarrow> Sector \<Rightarrow> Sector \<Rightarrow> Sector \<Rightarrow> error + int" where
  "factor_n_symbol (SU2Symmetry name) a b c = Inl NotImplementedError"
| "factor_n_symbol f a b c = Inr 1"

fun n_symbol :: "symmetry \<Rightarrow> Sector \<Rightarrow> Sector \<Rightarrow> Sector \<Rightarrow> error + int" where
  "n_symbol (Sym f) a b c = factor_n_symbol f a b c"
| "n_symbol (ProductSymmetry fs) a b c =
     (case fusion_style (ProductSymmetry fs) of
        Inl e \<Rightarrow> Inl e
      | Inr style \<Rightarrow>
          if style \<in> set [single, multiple_unique] then Inr 1
          else prod_results
                 (map (\<lambda>(f, a_i, b_i, c_i). factor_n_symbol f a_i b_i c_i)
                    (zip fs (zip (factor_parts fs a) (zip (factor_parts fs b) (factor_parts fs c))))))"

text \<open>\<^verbatim>\<open>Symmetry.__eq__\<close> (same \<^verbatim>\<open>descriptive_name\<close> and \<^verbatim>\<open>is_same_symmetry\<close>) and
  \<^verbatim>\<open>ProductSymmetry.__eq__\<close> (both products, as many factors, equal factor by factor).\<close>

fun descriptive_name :: "factor \<Rightarrow> string option" where
  "descriptive_name NoSymmetry = None"
| "descriptive_name (U1Symmetry name) = name"
| "descriptive_name (ZNSymmetry N name) = name"
| "descriptive_name (SU2Symmetry name) = name"
| "descriptive_name FermionParity = None"

fun is_same_symmetry :: "factor \<Rightarrow> factor \<Rightarrow> bool" where
  "is_same_symmetry NoSymmetry other = (factor_class other = NoSymmetry_cls)"
| "is_same_symmetry (U1Symmetry name) other = (factor_class other = U1Symmetry_cls)"
| "is_same_symmetry (ZNSymmetry N name) other =
     (case other of ZNSymmetry N' name' \<Rightarrow> N' = N | _ \<Rightarrow> False)"
| "is_same_symmetry (SU2Symmetry name) other = (factor_class other = SU2Symmetry_cls)"
| "is_same_symmetry FermionParity other = (factor_class other = FermionParity_cls)"

definition factor_eq :: "factor \<Rightarrow> factor \<Rightarrow> bool" where
  "factor_eq f other = (descriptive_name f = descriptive_name other \<and> is_same_symmetry f other)"

fun symmetry_eq :: "symmetry \<Rightarrow> symmetry \<Rightarrow> bool" where
  "symmetry_eq (Sym f) (Sym other) = factor_eq f other"
| "symmetry_eq (Sym f) (ProductSymmetry others) = False"
| "symmetry_eq (ProductSymmetry fs) (Sym other) = False"
| "symmetry_eq (ProductSymmetry fs) (ProductSymmetry others) =
     (length fs = length others \<and> list_all (\<lambda>(f1, f2). factor_eq f1 f2) (zip fs others))"




section \<open>spaces.py: VectorSpace\<close>

text \<open>
  \<^verbatim>\<open>_sorted_slices\<close> is stored as the caller passes it, without \<^verbatim>\<open>np.asarray\<close>: a
  two-dimensional array, or an array-like that is not an array (a list of pairs). Both
  have a length; only an array can be indexed with an index array. A slice is the pair
  (start, stop).
\<close>

datatype slices_value = SlicesList "(int \<times> int) list" | SlicesArray "(int \<times> int) list"

fun slices_len :: "slices_value \<Rightarrow> nat" where
  "slices_len (SlicesList pairs) = length pairs"
| "slices_len (SlicesArray pairs) = length pairs"

text \<open>
  The attributes of a \<^verbatim>\<open>VectorSpace\<close>. The last five carry a leading underscore in the
  source (\<^verbatim>\<open>_sector_perm\<close>, \<^verbatim>\<open>_non_dual_sorted_sectors\<close>, \<^verbatim>\<open>_sorted_multiplicities\<close>,
  \<^verbatim>\<open>_inverse_sector_perm\<close>, \<^verbatim>\<open>_sorted_slices\<close>).
\<close>

record VectorSpace =
  symmetry :: symmetry
  is_real :: bool
  is_dual :: bool
  sector_perm :: "nat list"
  non_dual_sorted_sectors :: SectorArray
  sorted_multiplicities :: "int list"
  inverse_sector_perm :: "nat list"
  sorted_slices :: slices_value

text \<open>
  Modelled from the spec: the method \<^verbatim>\<open>batch_sector_dim\<close>, which spaces.py calls on the
  symmetry, is defined by no class of groups.py. The spec and the docstring of
  \<^verbatim>\<open>VectorSpace\<close> give a slice the length
  \<^verbatim>\<open>symmetry.sector_dim(sectors[n]) * multiplicities[n]\<close>, so the body is taken as
  \<^verbatim>\<open>sector_dim\<close> row by row. It is reached only if the attribute lookup succeeds.
\<close>

definition batch_sector_dim :: "symmetry \<Rightarrow> SectorArray \<Rightarrow> error + int list" where
  "batch_sector_dim symm sectors = collect (map (sector_dim symm) sectors)"

text \<open>The call \<^verbatim>\<open>symmetry.batch_sector_dim(sectors)\<close>: attribute lookup, then the call.\<close>

definition call_batch_sector_dim :: "symmetry \<Rightarrow> SectorArray \<Rightarrow> error + int list" where
  "call_batch_sector_dim symm sectors =
     on_success (getattr symm ''batch_sector_dim'') (\<lambda>_. batch_sector_dim symm sectors)"

text \<open>\<^verbatim>\<open>_calc_slices\<close>. What it does with the dimensions that the call returns is
  \<open>slices_layout\<close>: \<^verbatim>\<open>slice_ends = np.cumsum(multiplicities * dims)\<close>,
  \<^verbatim>\<open>slices[:, 1] = slice_ends\<close> and \<^verbatim>\<open>slices[1:, 0] = slice_ends[:-1]\<close> on an array of
  zeros.\<close>

definition slices_from_ends :: "int list \<Rightarrow> (int \<times> int) list" where
  "slices_from_ends slice_ends = zip (0 # butlast slice_ends) slice_ends"

definition slices_layout :: "int list \<Rightarrow> int list \<Rightarrow> (int \<times> int) list" where
  "slices_layout multiplicities dims =
     slices_from_ends (cumsum64 (map2 (\<lambda>m d. wrap64 (m * d)) multiplicities dims))"

definition calc_slices :: "symmetry \<Rightarrow> SectorArray \<Rightarrow> int list \<Rightarrow> error + (int \<times> int) list" where
  "calc_slices symm sectors multiplicities =
     on_success (call_batch_sector_dim symm sectors)
       (\<lambda>dims. Inr (slices_layout multiplicities dims))"

text \<open>\<^verbatim>\<open>VectorSpace.__init__(symmetry, sectors, multiplicities, is_real, _is_dual,
  _sector_perm, _sorted_slices)\<close>; an optional argument left at \<^verbatim>\<open>None\<close> is \<open>None\<close>.
  \<^verbatim>\<open>_sector_perm\<close> is an array of indices.\<close>

definition VectorSpace_init ::
  "symmetry \<Rightarrow> ndarray \<Rightarrow> int list option \<Rightarrow> bool \<Rightarrow> bool \<Rightarrow> nat list option
     \<Rightarrow> slices_value option \<Rightarrow> error + VectorSpace" where
  "VectorSpace_init symm sectors_arg multiplicities real dual perm_arg slices_arg =
     on_success (asarray_2d sectors_arg) (\<lambda>sectors.
     (let num_sectors = length sectors in
      on_success
        (case multiplicities of
           None \<Rightarrow> Inr (replicate num_sectors 1)
         | Some m \<Rightarrow> if length m = num_sectors then asarray_1d m else Inl AssertionError)
        (\<lambda>mults.
      on_success
        (case perm_arg of
           None \<Rightarrow>
             on_success (lexsort_T (num_columns sectors_arg) sectors) (\<lambda>perm.
             on_success (take_rows sectors perm) (\<lambda>nds.
             on_success (take_rows mults perm) (\<lambda>sm. Inr (perm, nds, sm))))
         | Some p \<Rightarrow>
             if length p = num_sectors then Inr (p, sectors, mults) else Inl AssertionError)
        (\<lambda>(perm, nds, sm).
      on_success (inverse_permutation perm)
        (\<lambda>inv_perm.
      on_success
        (case slices_arg of
           None \<Rightarrow>
             on_success
               (case perm_arg of
                  None \<Rightarrow> calc_slices symm sectors mults
                | Some p \<Rightarrow>
                    on_success (take_rows sectors inv_perm) (\<lambda>unsorted_sectors.
                    on_success (take_rows mults inv_perm) (\<lambda>unsorted_mults.
                    calc_slices symm unsorted_sectors unsorted_mults)))
               (\<lambda>slices. on_success (take_rows slices perm) (\<lambda>sorted. Inr (SlicesArray sorted)))
         | Some given \<Rightarrow>
             if slices_len given = num_sectors then Inr given else Inl AssertionError)
        (\<lambda>the_sorted_slices.
           Inr \<lparr> symmetry = symm, is_real = real, is_dual = dual, sector_perm = perm,
                 non_dual_sorted_sectors = nds, sorted_multiplicities = sm,
                 inverse_sector_perm = inv_perm, sorted_slices = the_sorted_slices \<rparr>))))))"

text \<open>The properties \<^verbatim>\<open>dim\<close>, \<^verbatim>\<open>num_sectors\<close>, \<^verbatim>\<open>multiplicities\<close>, \<^verbatim>\<open>sectors\<close>,
  \<^verbatim>\<open>_sorted_sectors\<close> and \<^verbatim>\<open>slices\<close>. Indexing \<^verbatim>\<open>_sorted_slices\<close> with the array
  \<^verbatim>\<open>_inverse_sector_perm\<close> raises TypeError on a list.\<close>

definition dim :: "VectorSpace \<Rightarrow> error + int" where
  "dim v =
     on_success (call_batch_sector_dim (symmetry v) (non_dual_sorted_sectors v))
       (\<lambda>dims. Inr (wrap64 (sum_list (map2 (\<lambda>d m. wrap64 (d * m)) dims
                                        (sorted_multiplicities v)))))"

definition num_sectors :: "VectorSpace \<Rightarrow> nat" where
  "num_sectors v = length (non_dual_sorted_sectors v)"

definition multiplicities :: "VectorSpace \<Rightarrow> error + int list" where
  "multiplicities v = take_rows (sorted_multiplicities v) (inverse_sector_perm v)"

definition sectors :: "VectorSpace \<Rightarrow> error + SectorArray" where
  "sectors v =
     take_rows
       (if is_dual v then dual_sectors (symmetry v) (non_dual_sorted_sectors v)
        else non_dual_sorted_sectors v)
       (inverse_sector_perm v)"

definition sorted_sectors :: "VectorSpace \<Rightarrow> SectorArray" where
  "sorted_sectors v =
     (if is_dual v then dual_sectors (symmetry v) (non_dual_sorted_sectors v)
      else non_dual_sorted_sectors v)"

definition slices :: "VectorSpace \<Rightarrow> error + (int \<times> int) list" where
  "slices v =
     (case sorted_slices v of
        SlicesList pairs \<Rightarrow> Inl TypeError
      | SlicesArray pairs \<Rightarrow> take_rows pairs (inverse_sector_perm v))"

text \<open>\<^verbatim>\<open>VectorSpace.without_symmetry(dim, is_real, _is_dual)\<close>; the sectors are
  \<^verbatim>\<open>no_symmetry.trivial_sector[None, :]\<close>, an array with one row.\<close>

definition without_symmetry :: "int \<Rightarrow> bool \<Rightarrow> bool \<Rightarrow> error + VectorSpace" where
  "without_symmetry d real dual =
     VectorSpace_init (Sym NoSymmetry)
       (NDArray (length (trivial_sector (Sym NoSymmetry))) [trivial_sector (Sym NoSymmetry)])
       (Some [d]) real dual None None"

text \<open>\<^verbatim>\<open>parse_index\<close>. The range check reads \<^verbatim>\<open>self.dim\<close> first.\<close>

definition parse_index :: "VectorSpace \<Rightarrow> int \<Rightarrow> error + (int \<times> int)" where
  "parse_index v idx =
     on_success (dim v) (\<lambda>d.
       if \<not> (- d \<le> idx \<and> idx < d) then Inl IndexError
       else
         (let idx' = (if idx < 0 then idx + d else idx) in
          on_success (slices v) (\<lambda>sl.
            (let sector_idx = int (bisect (map fst sl) idx') - 1 in
             on_success (getitem sl sector_idx) (\<lambda>row.
               Inr (sector_idx, idx' - fst row))))))"

text \<open>The property \<^verbatim>\<open>VectorSpace.dual\<close>: a shallow copy with \<^verbatim>\<open>is_dual\<close> flipped.\<close>

definition VectorSpace_dual :: "VectorSpace \<Rightarrow> VectorSpace" where
  "VectorSpace_dual v = v\<lparr>is_dual := \<not> is_dual v\<rparr>"

text \<open>\<^verbatim>\<open>is_subspace_of\<close>: the loop over the rows of \<open>other\<close> with the counter
  \<^verbatim>\<open>n_self\<close>. Rows of one symmetry have the same length, so \<^verbatim>\<open>np.all(row == other_sector)\<close>
  is equality of rows.\<close>

fun subspace_scan :: "VectorSpace \<Rightarrow> nat \<Rightarrow> (Sector \<times> int) list \<Rightarrow> error + bool" where
  "subspace_scan v n_self [] = Inr False"
| "subspace_scan v n_self ((other_sector, other_mult) # rest) =
     on_success (getitem (non_dual_sorted_sectors v) (int n_self)) (\<lambda>row.
       if row = other_sector
       then on_success (getitem (sorted_multiplicities v) (int n_self)) (\<lambda>m.
              if m > other_mult then Inr False
              else if n_self + 1 = num_sectors v then Inr True
              else subspace_scan v (n_self + 1) rest)
       else if n_self = num_sectors v then Inr True
       else subspace_scan v n_self rest)"

definition is_subspace_of :: "VectorSpace \<Rightarrow> VectorSpace \<Rightarrow> error + bool" where
  "is_subspace_of v other =
     (if is_dual v \<noteq> is_dual other then Inr False
      else if \<not> symmetry_eq (symmetry v) (symmetry other) then Inr False
      else subspace_scan v 0
             (zip (non_dual_sorted_sectors other) (sorted_multiplicities other)))"

section \<open>spaces.py: ProductSpace\<close>

text \<open>
  A space is a plain \<^verbatim>\<open>VectorSpace\<close> or a \<^verbatim>\<open>ProductSpace\<close>, which is a
  \<^verbatim>\<open>VectorSpace\<close> with the list \<^verbatim>\<open>spaces\<close> of its factors (themselves spaces).
\<close>

datatype space = Plain VectorSpace | ProductSpace VectorSpace "space list"

fun fields :: "space \<Rightarrow> VectorSpace" where
  "fields (Plain v) = v"
| "fields (ProductSpace v factors) = v"

text \<open>The property \<^verbatim>\<open>dual\<close> of both classes; \<^verbatim>\<open>ProductSpace.dual\<close> also takes the dual
  of every factor.\<close>

fun dual :: "space \<Rightarrow> space" where
  "dual (Plain v) = Plain (VectorSpace_dual v)"
| "dual (ProductSpace v factors) = ProductSpace (VectorSpace_dual v) (map dual factors)"

text \<open>
  Modelled from the spec: the method \<^verbatim>\<open>_n_symbol\<close>, which \<^verbatim>\<open>_fuse_spaces\<close> calls on the
  symmetry, is defined by no class of groups.py. The spec has the accumulated term as
  the product of the two multiplicities and the N-symbol, so the body is taken as
  \<^verbatim>\<open>n_symbol\<close>. It is reached only if the attribute lookup succeeds.
\<close>

definition call_n_symbol :: "symmetry \<Rightarrow> Sector \<Rightarrow> Sector \<Rightarrow> Sector \<Rightarrow> error + int" where
  "call_n_symbol symm a b c =
     on_success (getattr symm ''_n_symbol'') (\<lambda>_. n_symbol symm a b c)"

text \<open>The loops of \<^verbatim>\<open>_fuse_spaces\<close>, from the innermost:
  \<^verbatim>\<open>for s_c in symmetry.fusion_outcomes(s_a, s_b)\<close>,
  \<^verbatim>\<open>for s_b, m_b in zip(space._sorted_sectors, space._sorted_multiplicities)\<close>,
  \<^verbatim>\<open>for t_a, m_a in fusion.items()\<close> and \<^verbatim>\<open>for space in spaces[1:]\<close>.\<close>

fun fuse_outcomes ::
  "symmetry \<Rightarrow> Sector \<Rightarrow> int \<Rightarrow> Sector \<Rightarrow> int \<Rightarrow> SectorArray \<Rightarrow> (Sector \<times> int) list
     \<Rightarrow> error + (Sector \<times> int) list" where
  "fuse_outcomes symm s_a m_a s_b m_b [] new_fusion = Inr new_fusion"
| "fuse_outcomes symm s_a m_a s_b m_b (s_c # outcomes) new_fusion =
     on_success (call_n_symbol symm s_a s_b s_c) (\<lambda>n.
       fuse_outcomes symm s_a m_a s_b m_b outcomes
         (dict_set new_fusion s_c
            (wrap64 (dict_get new_fusion s_c 0 + wrap64 (wrap64 (m_a * m_b) * n)))))"

fun fuse_sector ::
  "symmetry \<Rightarrow> Sector \<Rightarrow> int \<Rightarrow> (Sector \<times> int) list \<Rightarrow> (Sector \<times> int) list
     \<Rightarrow> error + (Sector \<times> int) list" where
  "fuse_sector symm s_a m_a [] new_fusion = Inr new_fusion"
| "fuse_sector symm s_a m_a ((s_b, m_b) # rest) new_fusion =
     on_success (fusion_outcomes symm s_a s_b) (\<lambda>outcomes.
     on_success (fuse_outcomes symm s_a m_a s_b m_b outcomes new_fusion) (\<lambda>new_fusion'.
       fuse_sector symm s_a m_a rest new_fusion'))"

fun fuse_items ::
  "symmetry \<Rightarrow> (Sector \<times> int) list \<Rightarrow> VectorSpace \<Rightarrow> (Sector \<times> int) list
     \<Rightarrow> error + (Sector \<times> int) list" where
  "fuse_items symm [] v new_fusion = Inr new_fusion"
| "fuse_items symm ((t_a, m_a) # items) v new_fusion =
     on_success
       (fuse_sector symm t_a m_a (zip (sorted_sectors v) (sorted_multiplicities v)) new_fusion)
       (\<lambda>new_fusion'. fuse_items symm items v new_fusion')"

fun fuse_loop ::
  "symmetry \<Rightarrow> (Sector \<times> int) list \<Rightarrow> space list \<Rightarrow> error + (Sector \<times> int) list" where
  "fuse_loop symm fusion [] = Inr fusion"
| "fuse_loop symm fusion (sp # rest) =
     on_success (fuse_items symm fusion (fields sp) [])
       (\<lambda>new_fusion. fuse_loop symm new_fusion rest)"

text \<open>The dict comprehension \<^verbatim>\<open>{tuple(s): m for s, m in zip(...)}\<close>.\<close>

fun dict_of :: "('k \<times> 'v) list \<Rightarrow> ('k \<times> 'v) list \<Rightarrow> ('k \<times> 'v) list" where
  "dict_of d [] = d"
| "dict_of d ((k, v) # kvs) = dict_of (dict_set d k v) kvs"

text \<open>\<^verbatim>\<open>_fuse_spaces(symmetry, spaces, _is_dual)\<close>; the metadata it returns is empty.
  \<^verbatim>\<open>np.asarray(list(fusion.keys()))\<close> is a two-dimensional array with one row for each
  key; keys of different lengths raise ValueError. An empty dict gives a
  one-dimensional array, and keys without entries an array without columns: on both
  \<^verbatim>\<open>np.lexsort\<close> raises TypeError (no keys).\<close>

definition fuse_spaces ::
  "symmetry \<Rightarrow> space list \<Rightarrow> bool \<Rightarrow> error + (ndarray \<times> int list)" where
  "fuse_spaces symm factors dual_flag =
     (let factors' = (if dual_flag then map dual factors else factors) in
      case factors' of
        [] \<Rightarrow> Inl IndexError
      | first # others \<Rightarrow>
          on_success
            (fuse_loop symm
               (dict_of [] (zip (sorted_sectors (fields first))
                                (sorted_multiplicities (fields first))))
               others)
            (\<lambda>fusion.
               (let k = (case fusion of [] \<Rightarrow> 0 | (key, m) # rest \<Rightarrow> length key);
                    mults = map snd fusion;
                    non_dual_sectors = map fst fusion
                in if \<not> list_all (\<lambda>key. length key = k) non_dual_sectors then Inl ValueError
                   else
                     on_success (lexsort_T k non_dual_sectors) (\<lambda>sort.
                     on_success (take_rows non_dual_sectors sort) (\<lambda>sorted_keys.
                     on_success (take_rows mults sort) (\<lambda>sorted_mults.
                       Inr (NDArray k sorted_keys, sorted_mults)))))))"

text \<open>\<^verbatim>\<open>ProductSpace.__init__(spaces, backend, _is_dual, _sectors, _multiplicities,
  _sector_perm, _sorted_slices)\<close>. A backend is represented by its \<^verbatim>\<open>_fuse_spaces\<close>
  (the backends are not part of these sources); the metadata is not modelled.\<close>

definition ProductSpace_init ::
  "space list \<Rightarrow> (symmetry \<Rightarrow> space list \<Rightarrow> bool \<Rightarrow> error + (ndarray \<times> int list)) option
     \<Rightarrow> bool option \<Rightarrow> ndarray option \<Rightarrow> int list option \<Rightarrow> nat list option
     \<Rightarrow> slices_value option \<Rightarrow> error + space" where
  "ProductSpace_init factors backend dual_arg sectors_arg mults_arg perm_arg slices_arg =
     (case factors of
        [] \<Rightarrow> Inl IndexError
      | first # others \<Rightarrow>
          (let dual_flag = (case dual_arg of None \<Rightarrow> is_dual (fields first) | Some d \<Rightarrow> d);
               symm = symmetry (fields first);
               real = is_real (fields first)
           in
           if \<not> list_all (\<lambda>s. symmetry_eq (symmetry (fields s)) symm) factors
           then Inl AssertionError
           else if \<not> list_all (\<lambda>s. is_real (fields s) = real) factors
           then Inl AssertionError
           else
             on_success
               (case sectors_arg of
                  None \<Rightarrow>
                    if mults_arg \<noteq> None then Inl AssertionError
                    else (case backend of
                            None \<Rightarrow> fuse_spaces symm factors dual_flag
                          | Some backend_fuse_spaces \<Rightarrow> backend_fuse_spaces symm factors dual_flag)
                | Some given_sectors \<Rightarrow>
                    (case mults_arg of
                       None \<Rightarrow> Inl AssertionError
                     | Some given_mults \<Rightarrow> Inr (given_sectors, given_mults)))
               (\<lambda>(the_sectors, the_mults).
                  on_success
                    (VectorSpace_init symm the_sectors (Some the_mults) real dual_flag
                       (Some (case perm_arg of
                                None \<Rightarrow> [0 ..< length (row_list the_sectors)]
                              | Some p \<Rightarrow> p))
                       slices_arg)
                    (\<lambda>v. Inr (ProductSpace v factors)))))"

section \<open>Module constants and example spaces\<close>

definition no_symmetry :: symmetry where
  "no_symmetry = Sym NoSymmetry"

definition z2_symmetry :: symmetry where
  "z2_symmetry = Sym (ZNSymmetry 2 None)"



text \<open>The space
  \<^verbatim>\<open>VectorSpace(no_symmetry, [[0]], [8], _sorted_slices=np.array([[0, 8]]))\<close>.\<close>

definition space8 :: VectorSpace where
  "space8 = \<lparr> symmetry = no_symmetry, is_real = False, is_dual = False, sector_perm = [0],
              non_dual_sorted_sectors = [[0]], sorted_multiplicities = [8],
              inverse_sector_perm = [0], sorted_slices = SlicesArray [(0, 8)] \<rparr>"

text \<open>The space \<^verbatim>\<open>VectorSpace(z2_symmetry, [[1], [0]], [2, 3],
  _sorted_slices=np.array([[2, 5], [0, 2]]))\<close>: sector \<open>[1]\<close> twice, then sector \<open>[0]\<close>
  three times.\<close>

definition z2_unsorted_space :: VectorSpace where
  "z2_unsorted_space =
     \<lparr> symmetry = z2_symmetry, is_real = False, is_dual = False, sector_perm = [1, 0],
       non_dual_sorted_sectors = [[0], [1]], sorted_multiplicities = [3, 2],
       inverse_sector_perm = [1, 0], sorted_slices = SlicesArray [(2, 5), (0, 2)] \<rparr>"

text \<open>The symmetry \<^verbatim>\<open>z2_symmetry * z2_symmetry\<close> and the space
  \<^verbatim>\<open>VectorSpace(z2_symmetry * z2_symmetry, [[0, 1], [1, 0]],
  _sorted_slices=np.array([[1, 2], [0, 1]]))\<close>.\<close>

definition z2_z2_symmetry :: symmetry where
  "z2_z2_symmetry = ProductSymmetry [ZNSymmetry 2 None, ZNSymmetry 2 None]"

definition z2_z2_space :: VectorSpace where
  "z2_z2_space =
     \<lparr> symmetry = z2_z2_symmetry, is_real = False, is_dual = False, sector_perm = [1, 0],
       non_dual_sorted_sectors = [[1, 0], [0, 1]], sorted_multiplicities = [1, 1],
       inverse_sector_perm = [1, 0], sorted_slices = SlicesArray [(1, 2), (0, 1)] \<rparr>"

text \<open>The space \<^verbatim>\<open>VectorSpace(z2_symmetry, [[0], [1]], [1, 1],
  _sorted_slices=np.array([[0, 1], [1, 2]]))\<close>.\<close>

definition z2_space :: VectorSpace where
  "z2_space =
     \<lparr> symmetry = z2_symmetry, is_real = False, is_dual = False, sector_perm = [0, 1],
       non_dual_sorted_sectors = [[0], [1]], sorted_multiplicities = [1, 1],
       inverse_sector_perm = [0, 1], sorted_slices = SlicesArray [(0, 1), (1, 2)] \<rparr>"





text \<open>Spaces of \<open>Z\<^sub>2\<close> for \<^verbatim>\<open>is_subspace_of\<close>: \<open>{[0]: 3, [1]: 2}\<close>, \<open>{[0]: 2, [1]: 1}\<close>,
  \<open>{[0]: 2, [1]: 3}\<close>, and the space without sectors,
  \<^verbatim>\<open>VectorSpace(z2_symmetry, np.zeros((0, 1), int), [], _sorted_slices=np.zeros((0, 2), int))\<close>.\<close>

definition z2_space_3_2 :: VectorSpace where
  "z2_space_3_2 =
     \<lparr> symmetry = z2_symmetry, is_real = False, is_dual = False, sector_perm = [0, 1],
       non_dual_sorted_sectors = [[0], [1]], sorted_multiplicities = [3, 2],
       inverse_sector_perm = [0, 1], sorted_slices = SlicesArray [(0, 3), (3, 5)] \<rparr>"

definition z2_space_2_1 :: VectorSpace where
  "z2_space_2_1 =
     \<lparr> symmetry = z2_symmetry, is_real = False, is_dual = False, sector_perm = [0, 1],
       non_dual_sorted_sectors = [[0], [1]], sorted_multiplicities = [2, 1],
       inverse_sector_perm = [0, 1], sorted_slices = SlicesArray [(0, 2), (2, 3)] \<rparr>"

definition z2_space_2_3 :: VectorSpace where
  "z2_space_2_3 =
     \<lparr> symmetry = z2_symmetry, is_real = False, is_dual = False, sector_perm = [0, 1],
       non_dual_sorted_sectors = [[0], [1]], sorted_multiplicities = [2, 3],
       inverse_sector_perm = [0, 1], sorted_slices = SlicesArray [(0, 2), (2, 5)] \<rparr>"

definition z2_empty_space :: VectorSpace where
  "z2_empty_space =
     \<lparr> symmetry = z2_symmetry, is_real = False, is_dual = False, sector_perm = [],
       non_dual_sorted_sectors = [], sorted_multiplicities = [],
       inverse_sector_perm = [], sorted_slices = SlicesArray [] \<rparr>"

section \<open>Properties\<close>

subsection \<open>Attribute lookup\<close>

lemma hasattr_batch_sector_dim: "\<not> hasattr symm ''batch_sector_dim''"
proof (cases symm)
  case (Sym f)
  then show ?thesis by (cases f) (simp_all add: hasattr_def builtin_names_def)
next
  case (ProductSymmetry fs)
  then show ?thesis by (simp add: hasattr_def builtin_names_def)
qed

lemma hasattr_n_symbol: "\<not> hasattr symm ''_n_symbol''"
proof (cases symm)
  case (Sym f)
  then show ?thesis by (cases f) (simp_all add: hasattr_def builtin_names_def)
next
  case (ProductSymmetry fs)
  then show ?thesis by (simp add: hasattr_def builtin_names_def)
qed

lemma call_batch_sector_dim_raises: "call_batch_sector_dim symm secs = Inl AttributeError"
  by (simp add: call_batch_sector_dim_def getattr_def hasattr_batch_sector_dim on_success_def)

lemma calc_slices_raises: "calc_slices symm secs mults = Inl AttributeError"
  by (simp add: calc_slices_def call_batch_sector_dim_raises on_success_def)

lemma dim_raises: "dim v = Inl AttributeError"
  by (simp add: dim_def call_batch_sector_dim_raises on_success_def)

lemma call_n_symbol_raises: "call_n_symbol symm a b c = Inl AttributeError"
  by (simp add: call_n_symbol_def getattr_def hasattr_n_symbol on_success_def)

subsection \<open>Fixed-width integers\<close>


lemma int64_wrap64: "int64 (wrap64 x)"
proof -
  have "0 \<le> (x + 2 ^ 63) mod (2 ^ 64 :: int)" "(x + 2 ^ 63) mod (2 ^ 64 :: int) < 2 ^ 64"
    by simp_all
  moreover have "(2 ^ 64 :: int) = 2 ^ 63 + 2 ^ 63" by simp
  ultimately show ?thesis unfolding int64_def wrap64_def by linarith
qed


subsection \<open>Permutations, sorting and the slice layout\<close>

lemma length_inverse_fill: "length (inverse_fill p i buf) = length buf"
  by (induction p arbitrary: i buf) simp_all

lemma inverse_fill_bound:
  "\<forall>x\<in>set buf. x < n \<Longrightarrow> i + length p \<le> n \<Longrightarrow> \<forall>x\<in>set (inverse_fill p i buf). x < n"
proof (induction p arbitrary: i buf)
  case Nil
  then show ?case by simp
next
  case (Cons a p)
  have "\<forall>x\<in>set (buf[a := i]). x < n"
    using Cons.prems set_update_subset_insert [of buf a i] by auto
  then show ?case using Cons.IH [of "buf[a := i]" "Suc i"] Cons.prems by simp
qed

lemma inverse_permutation_ok:
  assumes len: "length p = n" and perm: "set p = {..<n}"
  shows "\<exists>inv_perm. inverse_permutation p = Inr inv_perm \<and> length inv_perm = n
           \<and> (\<forall>x\<in>set inv_perm. x < n)"
proof -
  have a: "list_all (\<lambda>x. x < length p) p"
    unfolding list_all_iff len perm by simp
  have b: "\<forall>x\<in>set (replicate n (0::nat)). x < n"
    by (simp add: set_replicate_conv_if)
  have c: "\<forall>x\<in>set (inverse_fill p 0 (replicate n 0)). x < n"
    by (rule inverse_fill_bound [OF b]) (simp add: len)
  have d: "inverse_permutation p = Inr (inverse_fill p 0 (replicate n 0))"
    unfolding inverse_permutation_def using a len by simp
  have e: "length (inverse_fill p 0 (replicate n 0)) = n"
    by (simp add: length_inverse_fill)
  from c d e show ?thesis by blast
qed







lemma take_rows_colex:
  "length xs = length secs \<Longrightarrow>
   take_rows xs (colex_argsort secs) = Inr (map (\<lambda>i. xs ! i) (colex_argsort secs))"
  by (simp add: take_rows_def colex_argsort_def list_all_iff)

lemma set_colex:
  "set (colex_argsort secs) = {..<length secs}" "length (colex_argsort secs) = length secs"
  by (auto simp: colex_argsort_def)

lemma set_rows_colex: "set (map (\<lambda>i. secs ! i) (colex_argsort secs)) = set secs"
proof -
  have "set (map (\<lambda>i. secs ! i) (colex_argsort secs)) = (\<lambda>i. secs ! i) ` {..<length secs}"
    by (simp add: set_colex)
  also have "\<dots> = set secs" by (auto simp: in_set_conv_nth)
  finally show ?thesis .
qed

lemma colex_argsort_sorted:
  assumes "distinct secs"
  shows "sorted_wrt (\<lambda>a b. rev a < rev b) (map (\<lambda>i. secs ! i) (colex_argsort secs))"
    and "distinct (map (\<lambda>i. secs ! i) (colex_argsort secs))"
proof -
  let ?perm = "colex_argsort secs"
  let ?rows = "map (\<lambda>i. secs ! i) ?perm"
  have dp: "distinct ?perm" by (simp add: colex_argsort_def)
  have sp: "set ?perm = {..<length secs}" by (rule set_colex)
  have "inj_on (\<lambda>i. secs ! i) (set ?perm)"
    unfolding sp using assms by (intro inj_on_nth) auto
  then show d: "distinct ?rows" using dp by (simp add: distinct_map)
  have "sorted (map (\<lambda>i. rev (secs ! i)) ?perm)"
    unfolding colex_argsort_def by (rule sorted_sort_key)
  then have "sorted (map rev ?rows)" by (simp add: comp_def)
  moreover have "distinct (map rev ?rows)"
  proof -
    have "inj_on rev (set ?rows)" by (simp add: inj_on_def)
    with d show ?thesis
      by (simp only: distinct_map [of rev "map (\<lambda>i. secs ! i) (colex_argsort secs)"] simp_thms)
  qed
  ultimately have "sorted_wrt (<) (map rev ?rows)" by (simp add: strict_sorted_iff)
  then show "sorted_wrt (\<lambda>a b. rev a < rev b) ?rows" by (simp add: sorted_wrt_map)
qed

lemma asarray_2d_Inr:
  "asarray_2d (NDArray k secs) = Inr rows
   \<longleftrightarrow> rows = secs \<and> list_all (\<lambda>r. length r = k) secs \<and> list_all (list_all int64) secs"
  by auto

lemma VectorSpace_init_sorts:
  assumes "VectorSpace_init symm (NDArray k secs) mults real dual_flag None slices_arg = Inr v"
  shows "non_dual_sorted_sectors v = map (\<lambda>i. secs ! i) (colex_argsort secs)"
    and "sector_perm v = colex_argsort secs"
    and "0 < k"
  using assms
  by (auto simp: VectorSpace_init_def Let_def on_success_def take_rows_colex lexsort_T_def
           split: sum.splits option.splits if_splits)















lemma slices_of_list_raises: "sorted_slices v = SlicesList pairs \<Longrightarrow> slices v = Inl TypeError"
  by (simp add: slices_def)

subsection \<open>Sectors of a product and dual sectors\<close>



















lemma factor_eq_iff: "factor_eq f g \<longleftrightarrow> f = g"
  by (cases f; cases g) (auto simp: factor_eq_def)

lemma symmetry_eq_iff: "symmetry_eq s t \<longleftrightarrow> s = t"
proof (cases s; cases t)
  fix fs gs assume st: "s = ProductSymmetry fs" "t = ProductSymmetry gs"
  have "(length fs = length gs \<and> list_all (\<lambda>(f1, f2). factor_eq f1 f2) (zip fs gs)) \<longleftrightarrow> fs = gs"
    by (auto simp: list_all_length list_eq_iff_nth_eq factor_eq_iff)
  then show ?thesis using st by simp
qed (simp_all add: factor_eq_iff)

subsection \<open>Fusion\<close>



lemma np_binop_same_length:
  "length a = length b \<Longrightarrow> np_binop f a b = Inr (map2 f a b)"
  by (simp add: np_binop_def)















lemma z2_space_constructed:
  "VectorSpace_init z2_symmetry (NDArray 1 [[0], [1]]) (Some [1, 1]) False False None
     (Some (SlicesArray [(0, 1), (1, 2)])) = Inr z2_space"
  by (simp add: VectorSpace_init_def Let_def on_success_def take_rows_def lexsort_T_def
        colex_argsort_def inverse_permutation_def z2_space_def asarray_1d_def int64_def)

lemma fuse_two_z2_raises:
  "fuse_spaces z2_symmetry (Plain z2_space # Plain z2_space # rest) False = Inl AttributeError"
  by (simp add: fuse_spaces_def Let_def on_success_def sorted_sectors_def z2_space_def
        z2_symmetry_def call_n_symbol_raises np_mod_def np_binop_def)


subsection \<open>The merge scan of is_subspace_of\<close>

text \<open>For a space with at least one sector the merge scan is correct: if the canonical
  sectors of both spaces are strictly increasing in the canonical order and each has as
  many multiplicities as sectors, \<^verbatim>\<open>is_subspace_of\<close> returns True exactly when
  \<^verbatim>\<open>is_dual\<close> and the symmetry agree and every sector of \<open>self\<close> is a sector of \<open>other\<close>
  with at least its multiplicity.\<close>

lemma subspace_scan_correct:
  assumes ss: "sorted_wrt (\<lambda>a b. rev a < rev b) (non_dual_sorted_sectors v)"
    and ms: "length (sorted_multiplicities v) = length (non_dual_sorted_sectors v)"
  shows "n < length (non_dual_sorted_sectors v)
     \<Longrightarrow> sorted_wrt (\<lambda>a b. rev a < rev b) (map fst rest)
     \<Longrightarrow> subspace_scan v n rest
         = Inr (\<forall>i. n \<le> i \<and> i < length (non_dual_sorted_sectors v) \<longrightarrow>
                  (\<exists>p\<in>set rest. fst p = non_dual_sorted_sectors v ! i
                                 \<and> sorted_multiplicities v ! i \<le> snd p))"
proof (induction rest arbitrary: n)
  case Nil
  then show ?case by auto
next
  case (Cons p rest)
  let ?S = "non_dual_sorted_sectors v" and ?M = "sorted_multiplicities v"
  let ?N = "length (non_dual_sorted_sectors v)"
  obtain os om where p: "p = (os, om)" by (cases p) auto
  have n: "n < ?N" by (rule Cons.prems(1))
  have later: "\<forall>k\<in>set (map fst rest). rev os < rev k"
    using Cons.prems(2) p by simp
  have srt: "sorted_wrt (\<lambda>a b. rev a < rev b) (map fst rest)"
    using Cons.prems(2) by simp
  have g1: "getitem ?S (int n) = Inr (?S ! n)" using n by (simp add: getitem_def)
  have g2: "getitem ?M (int n) = Inr (?M ! n)" using n ms by (simp add: getitem_def)
  have incr: "rev (?S ! i) < rev (?S ! j)" if "i < j" "j < ?N" for i j
    using sorted_wrt_nth_less [OF ss that] .
  show ?case
  proof (cases "?S ! n = os")
    case True
    have not_later: "\<not> (\<exists>q\<in>set rest. fst q = ?S ! n)"
      using later True by auto
    have others: "(\<exists>q\<in>set (p # rest). fst q = ?S ! i \<and> ?M ! i \<le> snd q)
                  = (\<exists>q\<in>set rest. fst q = ?S ! i \<and> ?M ! i \<le> snd q)"
      if "n < i" "i < ?N" for i
    proof -
      have "rev (?S ! n) < rev (?S ! i)" using incr that by simp
      then have "?S ! i \<noteq> os" using True by auto
      then show ?thesis using p by simp
    qed
    show ?thesis
    proof (cases "?M ! n > om")
      case big: True
      have "\<not> (\<exists>q\<in>set (p # rest). fst q = ?S ! n \<and> ?M ! n \<le> snd q)"
        using not_later big p by auto
      then have "\<not> (\<forall>i. n \<le> i \<and> i < ?N \<longrightarrow>
                  (\<exists>q\<in>set (p # rest). fst q = ?S ! i \<and> ?M ! i \<le> snd q))"
        using n by blast
      then show ?thesis using p g1 g2 True big by (simp add: on_success_def)
    next
      case small: False
      have here: "\<exists>q\<in>set (p # rest). fst q = ?S ! n \<and> ?M ! n \<le> snd q"
        using p True small by simp
      show ?thesis
      proof (cases "n + 1 = ?N")
        case last: True
        have "\<forall>i. n \<le> i \<and> i < ?N \<longrightarrow>
                  (\<exists>q\<in>set (p # rest). fst q = ?S ! i \<and> ?M ! i \<le> snd q)"
        proof (intro allI impI)
          fix i assume "n \<le> i \<and> i < ?N"
          then have "i = n" using last by simp
          then show "\<exists>q\<in>set (p # rest). fst q = ?S ! i \<and> ?M ! i \<le> snd q"
            using here by simp
        qed
        then show ?thesis
          using p g1 g2 True small last by (simp add: on_success_def num_sectors_def)
      next
        case more: False
        then have n1: "n + 1 < ?N" using n by simp
        have ih: "subspace_scan v (n + 1) rest
              = Inr (\<forall>i. n + 1 \<le> i \<and> i < ?N \<longrightarrow>
                       (\<exists>q\<in>set rest. fst q = ?S ! i \<and> ?M ! i \<le> snd q))"
          using Cons.IH [OF n1 srt] .
        have "(\<forall>i. n \<le> i \<and> i < ?N \<longrightarrow>
                  (\<exists>q\<in>set (p # rest). fst q = ?S ! i \<and> ?M ! i \<le> snd q))
              = (\<forall>i. n + 1 \<le> i \<and> i < ?N \<longrightarrow>
                  (\<exists>q\<in>set rest. fst q = ?S ! i \<and> ?M ! i \<le> snd q))"
        proof
          assume a: "\<forall>i. n \<le> i \<and> i < ?N \<longrightarrow>
                  (\<exists>q\<in>set (p # rest). fst q = ?S ! i \<and> ?M ! i \<le> snd q)"
          show "\<forall>i. n + 1 \<le> i \<and> i < ?N \<longrightarrow>
                  (\<exists>q\<in>set rest. fst q = ?S ! i \<and> ?M ! i \<le> snd q)"
          proof (intro allI impI)
            fix i assume i: "n + 1 \<le> i \<and> i < ?N"
            then have "\<exists>q\<in>set (p # rest). fst q = ?S ! i \<and> ?M ! i \<le> snd q"
              using a by simp
            then show "\<exists>q\<in>set rest. fst q = ?S ! i \<and> ?M ! i \<le> snd q"
              using others [of i] i by simp
          qed
        next
          assume b: "\<forall>i. n + 1 \<le> i \<and> i < ?N \<longrightarrow>
                  (\<exists>q\<in>set rest. fst q = ?S ! i \<and> ?M ! i \<le> snd q)"
          show "\<forall>i. n \<le> i \<and> i < ?N \<longrightarrow>
                  (\<exists>q\<in>set (p # rest). fst q = ?S ! i \<and> ?M ! i \<le> snd q)"
          proof (intro allI impI)
            fix i assume i: "n \<le> i \<and> i < ?N"
            show "\<exists>q\<in>set (p # rest). fst q = ?S ! i \<and> ?M ! i \<le> snd q"
            proof (cases "i = n")
              case True
              then show ?thesis using here by simp
            next
              case False
              then have "n + 1 \<le> i \<and> i < ?N" using i by simp
              then have "\<exists>q\<in>set rest. fst q = ?S ! i \<and> ?M ! i \<le> snd q"
                using b by simp
              then show ?thesis by auto
            qed
          qed
        qed
        then show ?thesis
          using p g1 g2 True small more ih by (simp add: on_success_def num_sectors_def)
      qed
    qed
  next
    case False
    have ih: "subspace_scan v n rest
          = Inr (\<forall>i. n \<le> i \<and> i < ?N \<longrightarrow>
                   (\<exists>q\<in>set rest. fst q = ?S ! i \<and> ?M ! i \<le> snd q))"
      using Cons.IH [OF n srt] .
    have "(\<forall>i. n \<le> i \<and> i < ?N \<longrightarrow>
              (\<exists>q\<in>set (p # rest). fst q = ?S ! i \<and> ?M ! i \<le> snd q))
          = (\<forall>i. n \<le> i \<and> i < ?N \<longrightarrow>
              (\<exists>q\<in>set rest. fst q = ?S ! i \<and> ?M ! i \<le> snd q))"
    proof
      assume a: "\<forall>i. n \<le> i \<and> i < ?N \<longrightarrow>
              (\<exists>q\<in>set (p # rest). fst q = ?S ! i \<and> ?M ! i \<le> snd q)"
      then have "\<exists>q\<in>set (p # rest). fst q = ?S ! n \<and> ?M ! n \<le> snd q"
        using n by simp
      then obtain q where q: "q \<in> set rest" "fst q = ?S ! n"
        using False p by auto
      then have os_n: "rev os < rev (?S ! n)" using later by auto
      show "\<forall>i. n \<le> i \<and> i < ?N \<longrightarrow>
              (\<exists>q\<in>set rest. fst q = ?S ! i \<and> ?M ! i \<le> snd q)"
      proof (intro allI impI)
        fix i assume i: "n \<le> i \<and> i < ?N"
        have "rev (?S ! n) \<le> rev (?S ! i)"
        proof (cases "i = n")
          case True
          then show ?thesis by simp
        next
          case False
          then have "rev (?S ! n) < rev (?S ! i)" using incr [of n i] i by simp
          then show ?thesis by simp
        qed
        then have "rev os < rev (?S ! i)" using os_n by simp
        then have "?S ! i \<noteq> os" by auto
        moreover have "\<exists>q\<in>set (p # rest). fst q = ?S ! i \<and> ?M ! i \<le> snd q"
          using a i by simp
        ultimately show "\<exists>q\<in>set rest. fst q = ?S ! i \<and> ?M ! i \<le> snd q"
          using p by auto
      qed
    next
      assume "\<forall>i. n \<le> i \<and> i < ?N \<longrightarrow>
              (\<exists>q\<in>set rest. fst q = ?S ! i \<and> ?M ! i \<le> snd q)"
      then show "\<forall>i. n \<le> i \<and> i < ?N \<longrightarrow>
              (\<exists>q\<in>set (p # rest). fst q = ?S ! i \<and> ?M ! i \<le> snd q)"
        by auto
    qed
    then show ?thesis
      using p g1 False n ih by (simp add: on_success_def num_sectors_def)
  qed
qed

lemma is_subspace_of_correct:
  assumes "sorted_wrt (\<lambda>a b. rev a < rev b) (non_dual_sorted_sectors v)"
    and "length (sorted_multiplicities v) = length (non_dual_sorted_sectors v)"
    and "non_dual_sorted_sectors v \<noteq> []"
    and "sorted_wrt (\<lambda>a b. rev a < rev b) (non_dual_sorted_sectors other)"
    and "length (sorted_multiplicities other) = length (non_dual_sorted_sectors other)"
  shows "is_subspace_of v other
         = Inr (is_dual v = is_dual other \<and> symmetry v = symmetry other
                \<and> (\<forall>i. i < length (non_dual_sorted_sectors v) \<longrightarrow>
                     (\<exists>j. j < length (non_dual_sorted_sectors other)
                          \<and> non_dual_sorted_sectors other ! j = non_dual_sorted_sectors v ! i
                          \<and> sorted_multiplicities v ! i \<le> sorted_multiplicities other ! j)))"
proof -
  let ?S = "non_dual_sorted_sectors v" and ?M = "sorted_multiplicities v"
  let ?T = "non_dual_sorted_sectors other" and ?L = "sorted_multiplicities other"
  have n: "0 < length ?S" using assms(3) by simp
  have fst_zip: "map fst (zip ?T ?L) = ?T" using assms(5) by (simp add: map_fst_zip)
  have scan: "subspace_scan v 0 (zip ?T ?L)
        = Inr (\<forall>i. 0 \<le> i \<and> i < length ?S \<longrightarrow>
                 (\<exists>p\<in>set (zip ?T ?L). fst p = ?S ! i \<and> ?M ! i \<le> snd p))"
    using subspace_scan_correct [OF assms(1,2) n, of "zip ?T ?L"] assms(4) fst_zip by simp
  have conv: "(\<exists>p\<in>set (zip ?T ?L). fst p = s \<and> m \<le> snd p)
              = (\<exists>j. j < length ?T \<and> ?T ! j = s \<and> m \<le> ?L ! j)" for s m
    using assms(5) by (auto simp: set_zip)
  show ?thesis
    using scan by (simp add: is_subspace_of_def symmetry_eq_iff conv)
qed

subsection \<open>Claim C1\<close>

text \<open>
  C1, as amended. For every symmetry (each class of groups.py, with any parameters), every
  array \<^verbatim>\<open>sectors\<close> of shape \<open>(n, k)\<close> with \<^verbatim>\<open>int64\<close> entries and every choice of
  \<^verbatim>\<open>is_real\<close> and \<^verbatim>\<open>_is_dual\<close>: if \<^verbatim>\<open>multiplicities\<close> is omitted or has \<open>n\<close> entries,
  all \<^verbatim>\<open>int64\<close> values, and \<^verbatim>\<open>_sector_perm\<close> is a permutation of \<^verbatim>\<open>range(n)\<close>, or is
  omitted and the array has at least one column (\<open>k \<ge> 1\<close>, a key for \<^verbatim>\<open>np.lexsort\<close>),
  then \<^verbatim>\<open>VectorSpace.__init__\<close> without \<^verbatim>\<open>_sorted_slices\<close> raises AttributeError (the
  lookup of \<^verbatim>\<open>batch_sector_dim\<close> in \<^verbatim>\<open>_calc_slices\<close> fails); and every read of
  \<^verbatim>\<open>dim\<close>, on any space, raises AttributeError.
\<close>

theorem VectorSpace_init_raises_AttributeError:
  assumes "list_all (\<lambda>r. length r = k) secs" and "list_all (list_all int64) secs"
      and "case mults of None \<Rightarrow> True
             | Some m \<Rightarrow> length m = length secs \<and> list_all int64 m"
      and "case perm_arg of None \<Rightarrow> 0 < k
             | Some p \<Rightarrow> length p = length secs \<and> set p = {..<length secs}"
  shows "VectorSpace_init symm (NDArray k secs) mults real dual_flag perm_arg None
           = Inl AttributeError
         \<and> dim v = Inl AttributeError"
proof -
  have arr: "asarray_2d (NDArray k secs) = Inr secs"
    using assms(1,2) by simp
  obtain ms where ms: "(case mults of None \<Rightarrow> Inr (replicate (length secs) 1)
         | Some m \<Rightarrow> if length m = length secs then asarray_1d m else Inl AssertionError) = Inr ms"
      "length ms = length secs"
    using assms(3) by (cases mults) (auto simp: asarray_1d_def)
  show ?thesis
  proof (cases perm_arg)
    case None
    then have k: "k \<noteq> 0" using assms(4) by simp
    obtain inv_perm where "inverse_permutation (colex_argsort secs) = Inr inv_perm"
      using inverse_permutation_ok [OF set_colex(2) set_colex(1)] by blast
    then show ?thesis
      using None ms arr k
      by (simp add: VectorSpace_init_def Let_def on_success_def take_rows_colex lexsort_T_def
            calc_slices_raises dim_raises)
  next
    case (Some p)
    then have p: "length p = length secs" "set p = {..<length secs}" using assms(4) by auto
    obtain inv_perm where inv: "inverse_permutation p = Inr inv_perm"
       "length inv_perm = length secs" "\<forall>x\<in>set inv_perm. x < length secs"
      using inverse_permutation_ok [OF p] by blast
    then show ?thesis
      using Some ms p arr
      by (simp add: VectorSpace_init_def Let_def on_success_def take_rows_def list_all_iff
            calc_slices_raises dim_raises)
  qed
qed

text \<open>Witness for C1: the constructor with and without \<^verbatim>\<open>_sector_perm\<close>, and
  \<^verbatim>\<open>dim\<close> of a space built with \<^verbatim>\<open>_sorted_slices\<close>.\<close>

theorem VectorSpace_init_raises_AttributeError_witness:
  "VectorSpace_init z2_symmetry (NDArray 1 [[1], [0]]) (Some [2, 3]) False False None None
     = Inl AttributeError
   \<and> VectorSpace_init z2_symmetry (NDArray 1 [[0], [1]]) None False True (Some [1, 0]) None
     = Inl AttributeError
   \<and> dim space8 = Inl AttributeError"
proof -
  have r1: "list_all (\<lambda>r. length r = 1) [[1], [0 :: int]]"
    and r2: "list_all (\<lambda>r. length r = 1) [[0], [1 :: int]]" by simp_all
  have i1: "list_all (list_all int64) [[1], [0]]"
    and i2: "list_all (list_all int64) [[0], [1]]" by (simp_all add: int64_def)
  have m1: "case Some [2, 3 :: int] of None \<Rightarrow> True
              | Some m \<Rightarrow> length m = length [[1], [0 :: int]] \<and> list_all int64 m"
    by (simp add: int64_def)
  have p1: "case None :: nat list option of None \<Rightarrow> 0 < (1 :: nat)
              | Some p \<Rightarrow> length p = length [[1], [0 :: int]] \<and> set p = {..<length [[1], [0 :: int]]}"
    by simp
  have m2: "case None :: int list option of None \<Rightarrow> True
              | Some m \<Rightarrow> length m = length [[0], [1 :: int]] \<and> list_all int64 m"
    by simp
  have "set [1, 0 :: nat] = {..<2}" by auto
  then have p2: "case Some [1, 0 :: nat] of None \<Rightarrow> 0 < (1 :: nat)
              | Some p \<Rightarrow> length p = length [[0], [1 :: int]] \<and> set p = {..<length [[0], [1 :: int]]}"
    by simp
  show ?thesis
    using VectorSpace_init_raises_AttributeError [OF r1 i1 m1 p1, of z2_symmetry False False space8]
      VectorSpace_init_raises_AttributeError [OF r2 i2 m2 p2, of z2_symmetry False True space8]
    by blast
qed

text \<open>Counterexamples to C1 as stated. With two multiplicities for one sector the
  assertion \<^verbatim>\<open>len(multiplicities) == num_sectors\<close> fails first, and the constructor
  raises AssertionError; for sectors without columns (or the empty list \<^verbatim>\<open>[]\<close>)
  \<^verbatim>\<open>np.lexsort\<close> has no key and raises TypeError; a sector entry \<open>2\<^sup>6\<^sup>3\<close> is refused by
  \<^verbatim>\<open>np.asarray\<close> with OverflowError. None of them is an AttributeError.\<close>

theorem VectorSpace_init_mismatch_counterexample:
  "VectorSpace_init no_symmetry (NDArray 1 [[0]]) (Some [1, 2]) False False None None
     = Inl AssertionError
   \<and> VectorSpace_init z2_symmetry (NDArray 0 []) None False False None None = Inl TypeError
   \<and> VectorSpace_init z2_symmetry (NDArray 0 [[], []]) None False False None None
       = Inl TypeError
   \<and> VectorSpace_init no_symmetry (NDArray 1 [[9223372036854775808]]) None False False None None
       = Inl OverflowError"
  by (simp add: VectorSpace_init_def on_success_def lexsort_T_def int64_def)

subsection \<open>Claim C2\<close>




subsection \<open>Claim C3\<close>

text \<open>
  C3, as amended. For every \<^verbatim>\<open>VectorSpace\<close> constructed (without \<^verbatim>\<open>_sector_perm\<close>) from
  pairwise distinct sectors in arbitrary order, the stored \<^verbatim>\<open>_non_dual_sorted_sectors\<close>
  are the given sectors, pairwise distinct and strictly increasing in the order of
  \<^verbatim>\<open>np.lexsort(sectors.T)\<close>, which compares two rows from the last column to the first.
  When every sector has a single entry (every symmetry but a product) this is the
  lexicographic order.
\<close>

theorem canonical_sectors_sorted:
  assumes "VectorSpace_init symm (NDArray k secs) mults real dual_flag None slices_arg = Inr v"
    and "distinct secs"
  shows "sorted_wrt (\<lambda>a b. rev a < rev b) (non_dual_sorted_sectors v)
         \<and> distinct (non_dual_sorted_sectors v)
         \<and> set (non_dual_sorted_sectors v) = set secs
         \<and> (list_all (\<lambda>a. length a = 1) secs \<longrightarrow> sorted_wrt (<) (non_dual_sorted_sectors v))"
proof -
  have eq: "non_dual_sorted_sectors v = map (\<lambda>i. secs ! i) (colex_argsort secs)"
    using VectorSpace_init_sorts(1) [OF assms(1)] .
  have s: "sorted_wrt (\<lambda>a b. rev a < rev b) (non_dual_sorted_sectors v)"
    unfolding eq using colex_argsort_sorted(1) [OF assms(2)] .
  have d: "distinct (non_dual_sorted_sectors v)"
    unfolding eq using colex_argsort_sorted(2) [OF assms(2)] .
  have e: "set (non_dual_sorted_sectors v) = set secs"
    unfolding eq by (rule set_rows_colex)
  have "sorted_wrt (<) (non_dual_sorted_sectors v)" if one: "list_all (\<lambda>a. length a = 1) secs"
  proof (rule sorted_wrt_mono_rel [OF _ s])
    fix a b assume "a \<in> set (non_dual_sorted_sectors v)" "b \<in> set (non_dual_sorted_sectors v)"
      and r: "rev a < rev b"
    then have "length a = 1" "length b = 1" using one e by (auto simp: list_all_iff)
    then obtain x y where "a = [x]" "b = [y]"
      by (metis One_nat_def length_0_conv length_Suc_conv)
    then show "a < b" using r by simp
  qed
  with s d e show ?thesis by blast
qed

text \<open>Witness for C3: a space of \<open>Z\<^sub>2 \<times> Z\<^sub>2\<close> and a space of \<open>Z\<^sub>2\<close>, both constructed
  (with \<^verbatim>\<open>_sorted_slices\<close>, see C1) from unsorted sectors.\<close>

theorem canonical_sectors_sorted_witness:
  "sorted_wrt (\<lambda>a b. rev a < rev b) (non_dual_sorted_sectors z2_z2_space)
   \<and> distinct (non_dual_sorted_sectors z2_z2_space)
   \<and> set (non_dual_sorted_sectors z2_z2_space) = set [[0, 1], [1, 0]]
   \<and> sorted_wrt (<) (non_dual_sorted_sectors z2_unsorted_space)"
proof -
  have a: "VectorSpace_init z2_z2_symmetry (NDArray 2 [[0, 1], [1, 0]]) None False False None
             (Some (SlicesArray [(1, 2), (0, 1)])) = Inr z2_z2_space"
    by (simp add: VectorSpace_init_def Let_def on_success_def take_rows_def lexsort_T_def
          colex_argsort_def inverse_permutation_def z2_z2_space_def int64_def)
  have b: "distinct [[0, 1], [1, 0 :: int]]" by simp
  have c: "VectorSpace_init z2_symmetry (NDArray 1 [[1], [0]]) (Some [2, 3]) False False None
             (Some (SlicesArray [(2, 5), (0, 2)])) = Inr z2_unsorted_space"
    by (simp add: VectorSpace_init_def Let_def on_success_def take_rows_def lexsort_T_def
          colex_argsort_def inverse_permutation_def z2_unsorted_space_def asarray_1d_def
          int64_def)
  have d: "distinct [[1], [0 :: int]]" by simp
  have e: "list_all (\<lambda>a. length a = 1) [[1], [0 :: int]]" by simp
  show ?thesis
    using canonical_sectors_sorted [OF a b] canonical_sectors_sorted [OF c d] e by blast
qed

text \<open>Counterexample to C3 as stated: from the valid sectors \<open>[0, 1]\<close> and \<open>[1, 0]\<close> of
  \<open>Z\<^sub>2 \<times> Z\<^sub>2\<close> the constructor stores \<open>[[1, 0], [0, 1]]\<close>, which is not lexicographically
  increasing.\<close>

theorem canonical_sectors_not_lexicographic_counterexample:
  "VectorSpace_init z2_z2_symmetry (NDArray 2 [[0, 1], [1, 0]]) None False False None
     (Some (SlicesArray [(1, 2), (0, 1)])) = Inr z2_z2_space
   \<and> is_valid_sector z2_z2_symmetry [0, 1] \<and> is_valid_sector z2_z2_symmetry [1, 0]
   \<and> non_dual_sorted_sectors z2_z2_space = [[1, 0], [0, 1]]
   \<and> \<not> sorted_wrt (<) (non_dual_sorted_sectors z2_z2_space)"
  by (simp add: VectorSpace_init_def Let_def on_success_def take_rows_def lexsort_T_def
        colex_argsort_def inverse_permutation_def z2_z2_space_def z2_z2_symmetry_def
        sector_ind_len_def factor_parts_def sector_slices_def cumsum_def
        factor_sector_ind_len_def slice_def int64_def)

subsection \<open>Claim C4\<close>

text \<open>
  C4 fails on the code. With \<open>A = B = C\<close> the \<open>Z\<^sub>2\<close> space holding the sectors \<open>[0]\<close> and
  \<open>[1]\<close> once each, \<^verbatim>\<open>ProductSpace([A, B])\<close> raises AttributeError (the lookup of
  \<^verbatim>\<open>_n_symbol\<close> in \<^verbatim>\<open>_fuse_spaces\<close>), so the nested product
  \<^verbatim>\<open>ProductSpace([ProductSpace([A, B]), C])\<close> raises, and so does the flat product
  \<^verbatim>\<open>ProductSpace([A, B, C])\<close>: neither has sectors to compare.
\<close>

theorem product_of_z2_spaces_raises:
  "VectorSpace_init z2_symmetry (NDArray 1 [[0], [1]]) (Some [1, 1]) False False None
     (Some (SlicesArray [(0, 1), (1, 2)])) = Inr z2_space
   \<and> ProductSpace_init [Plain z2_space, Plain z2_space] None None None None None None
       = Inl AttributeError
   \<and> on_success (ProductSpace_init [Plain z2_space, Plain z2_space] None None None None None None)
         (\<lambda>p. ProductSpace_init [p, Plain z2_space] None None None None None None)
       = Inl AttributeError
   \<and> ProductSpace_init [Plain z2_space, Plain z2_space, Plain z2_space] None None None None
         None None
       = Inl AttributeError"
proof -
  have a: "symmetry_eq z2_symmetry z2_symmetry"
    by (simp add: z2_symmetry_def factor_eq_def)
  have b: "ProductSpace_init (Plain z2_space # Plain z2_space # rest) None None None None None None
        = Inl AttributeError" if "list_all (\<lambda>s. s = Plain z2_space) rest" for rest
  proof -
    have "list_all (\<lambda>s. symmetry_eq (symmetry (fields s)) z2_symmetry) rest"
      "list_all (\<lambda>s. is_real (fields s) = False) rest"
      using that a by (auto simp: list_all_iff z2_space_def)
    then show ?thesis
      using a fuse_two_z2_raises [of rest]
      by (simp add: ProductSpace_init_def Let_def on_success_def z2_space_def)
  qed
  show ?thesis
    using z2_space_constructed b [of "[]"] b [of "[Plain z2_space]"]
    by (simp add: on_success_def)
qed

subsection \<open>Claim C5\<close>




subsection \<open>Claim C6\<close>




subsection \<open>Claim C7\<close>

text \<open>
  C7 fails on the code. The trivial-symmetry space of dimension 8 cannot be built by
  \<^verbatim>\<open>without_symmetry(8)\<close> (AttributeError in \<^verbatim>\<open>_calc_slices\<close>); on the same space built
  with \<^verbatim>\<open>_sorted_slices=np.array([[0, 8]])\<close>, \<^verbatim>\<open>parse_index(5)\<close>, \<^verbatim>\<open>parse_index(-1)\<close> and
  \<^verbatim>\<open>parse_index(8)\<close> all raise AttributeError, from the read of \<^verbatim>\<open>self.dim\<close> in the
  range check, where the claim has \<open>(0, 5)\<close>, \<open>(0, 7)\<close> and a range error.
\<close>

theorem parse_index_raises_AttributeError:
  "without_symmetry 8 False False = Inl AttributeError
   \<and> VectorSpace_init no_symmetry (NDArray 1 [[0]]) (Some [8]) False False None
       (Some (SlicesArray [(0, 8)])) = Inr space8
   \<and> parse_index space8 5 = Inl AttributeError
   \<and> parse_index space8 (- 1) = Inl AttributeError
   \<and> parse_index space8 8 = Inl AttributeError"
  by (simp add: without_symmetry_def VectorSpace_init_def Let_def on_success_def
        take_rows_def lexsort_T_def colex_argsort_def inverse_permutation_def
        calc_slices_raises parse_index_def dim_raises space8_def no_symmetry_def
        asarray_1d_def int64_def)

subsection \<open>Claim C8\<close>

text \<open>
  C8 fails on the code for a space without sectors. Every canonical sector of such a
  space appears in any other space of the same symmetry and \<^verbatim>\<open>is_dual\<close>, so the claim
  has \<^verbatim>\<open>is_subspace_of\<close> return True; the code reads
  \<^verbatim>\<open>self._non_dual_sorted_sectors[0]\<close> and raises IndexError when \<open>other\<close> has a sector,
  and returns False when \<open>other\<close> has none either.
\<close>

theorem is_subspace_of_empty_space:
  "VectorSpace_init z2_symmetry (NDArray 1 []) (Some []) False False None
     (Some (SlicesArray [])) = Inr z2_empty_space
   \<and> VectorSpace_init z2_symmetry (NDArray 1 [[0], [1]]) (Some [3, 2]) False False None
       (Some (SlicesArray [(0, 3), (3, 5)])) = Inr z2_space_3_2
   \<and> is_subspace_of z2_empty_space z2_space_3_2 = Inl IndexError
   \<and> is_subspace_of z2_empty_space z2_empty_space = Inr False"
  by (simp add: VectorSpace_init_def Let_def on_success_def take_rows_def lexsort_T_def
        colex_argsort_def inverse_permutation_def z2_empty_space_def z2_space_3_2_def
        is_subspace_of_def symmetry_eq_iff getitem_def asarray_1d_def int64_def)

text \<open>The scenario of C8 holds, on spaces built with \<^verbatim>\<open>_sorted_slices\<close>: under \<open>Z\<^sub>2\<close>,
  \<open>{[0]: 2, [1]: 1}\<close> is a subspace of \<open>{[0]: 3, [1]: 2}\<close> and \<open>{[0]: 2, [1]: 3}\<close> is
  not.\<close>

lemma is_subspace_of_scenario:
  "is_subspace_of z2_space_2_1 z2_space_3_2 = Inr True
   \<and> is_subspace_of z2_space_2_3 z2_space_3_2 = Inr False"
  by (simp add: z2_space_2_1_def z2_space_2_3_def z2_space_3_2_def is_subspace_of_def
        symmetry_eq_iff getitem_def on_success_def num_sectors_def)

subsection \<open>Claim C9\<close>




subsection \<open>Claim C10\<close>

text \<open>
  C10. For every \<^verbatim>\<open>ProductSymmetry\<close> \<open>p\<close>, \<^verbatim>\<open>isinstance(p, AbelianGroup)\<close> is true if and
  only if every factor of \<open>p\<close> is an instance of \<^verbatim>\<open>AbelianGroup\<close>, and
  \<^verbatim>\<open>isinstance(p, Group)\<close> is true if and only if every factor is an instance of
  \<^verbatim>\<open>Group\<close>, although \<^verbatim>\<open>ProductSymmetry\<close> is a nominal subclass of neither.
\<close>

theorem ProductSymmetry_instancecheck:
  "isinstance (ProductSymmetry fs) AbelianGroup_cls
     = list_all (\<lambda>f. isinstance (Sym f) AbelianGroup_cls) fs
   \<and> isinstance (ProductSymmetry fs) Group_cls
     = list_all (\<lambda>f. isinstance (Sym f) Group_cls) fs
   \<and> \<not> type_instancecheck AbelianGroup_cls ProductSymmetry_cls
   \<and> \<not> type_instancecheck Group_cls ProductSymmetry_cls"
  by (simp add: isinstance_def type_instancecheck_def)

text \<open>C10 at concrete products: \<open>U(1) \<times> Z\<^sub>3\<close> is an abelian group, \<open>U(1) \<times> SU(2)\<close> is
  a group but not abelian, and a product with the fermion parity is not a group.\<close>

theorem ProductSymmetry_instancecheck_witness:
  "isinstance (ProductSymmetry [U1Symmetry None, ZNSymmetry 3 None]) AbelianGroup_cls
   \<and> \<not> isinstance (ProductSymmetry [U1Symmetry None, SU2Symmetry None]) AbelianGroup_cls
   \<and> isinstance (ProductSymmetry [U1Symmetry None, SU2Symmetry None]) Group_cls
   \<and> \<not> isinstance (ProductSymmetry [U1Symmetry None, FermionParity]) Group_cls"
  using ProductSymmetry_instancecheck [of "[U1Symmetry None, ZNSymmetry 3 None]"]
    ProductSymmetry_instancecheck [of "[U1Symmetry None, SU2Symmetry None]"]
    ProductSymmetry_instancecheck [of "[U1Symmetry None, FermionParity]"]
  by (simp add: isinstance_def type_instancecheck_def)

end
